theory Spec2Isabelle
  imports Main "HOL-Library.Word"
begin

chapter \<open>Model\<close>

section \<open>Shared value types\<close>

text \<open>
  Go strings are byte sequences; \<open>len\<close> counts bytes. They are modelled as \<open>string\<close>
  (a list of 8-bit characters). \<open>time.Time\<close> is an instant, modelled as an integer
  count of nanoseconds; \<open>time.Now()\<close> is passed to every function that reads the clock.
  Tenant identifiers are the strings the store layer works with.
\<close>

type_synonym time = int

text \<open>The JSON-compatible values of the free-form \<open>map[string]interface{}\<close> bags.\<close>

datatype json = JNull | JBool bool | JNum int | JStr string | JArr "json list"
  | JObj "(string \<times> json) list"

text \<open>A Go map value is either \<open>nil\<close> (\<open>None\<close>) or a map (\<open>Some m\<close>).\<close>

type_synonym gomap = "(string \<rightharpoonup> json) option"

text \<open>
  A value as it crosses the database driver: an argument of a statement or a column of a
  result row.
\<close>

datatype cell = CNull | CInt int | CStr string | CBool bool | CTime time | CJson "string \<rightharpoonup> json"

type_synonym row = "cell list"

text \<open>
  Errors. \<open>ErrTenantNotFound\<close> is \<open>"tenant ID not found in context"\<close>;
  \<open>ErrEntityNotFound k id\<close> is \<open>"<k> with ID <id> not found"\<close>; \<open>Wrapped m e\<close> is
  \<open>fmt.Errorf("<m>: %w", e)\<close>; \<open>ErrDriver\<close> is any error of \<open>database/sql\<close> or of
  the server other than \<open>sql.ErrNoRows\<close>.
\<close>

datatype error =
    ValidationError string string
  | ErrTenantNotFound
  | ErrNoRows
  | ErrEntityNotFound string cell
  | ErrDriver string
  | Wrapped string error

section \<open>Nullable wrappers (database/sql) and the conversion helpers\<close>

record NullString_t =
  ns_String :: string
  ns_Valid :: bool

record NullTime_t =
  nt_Time :: time
  nt_Valid :: bool

record NullInt64_t =
  ni_Int64 :: int
  ni_Valid :: bool

text \<open>
  \<open>sql.NullString{Valid: false}\<close> leaves the payload at its zero value.
\<close>

definition NullString :: "string option \<Rightarrow> NullString_t" where
  "NullString s = (case s of
       None \<Rightarrow> \<lparr>ns_String = [], ns_Valid = False\<rparr>
     | Some x \<Rightarrow> \<lparr>ns_String = x, ns_Valid = True\<rparr>)"

definition StringFromNull :: "NullString_t \<Rightarrow> string option" where
  "StringFromNull ns = (if \<not> ns_Valid ns then None else Some (ns_String ns))"

definition NullTime :: "time option \<Rightarrow> NullTime_t" where
  "NullTime t = (case t of
       None \<Rightarrow> \<lparr>nt_Time = 0, nt_Valid = False\<rparr>
     | Some x \<Rightarrow> \<lparr>nt_Time = x, nt_Valid = True\<rparr>)"

definition TimeFromNull :: "NullTime_t \<Rightarrow> time option" where
  "TimeFromNull nt = (if \<not> nt_Valid nt then None else Some (nt_Time nt))"

definition NullInt64 :: "int option \<Rightarrow> NullInt64_t" where
  "NullInt64 i = (case i of
       None \<Rightarrow> \<lparr>ni_Int64 = 0, ni_Valid = False\<rparr>
     | Some x \<Rightarrow> \<lparr>ni_Int64 = x, ni_Valid = True\<rparr>)"

definition Int64FromNull :: "NullInt64_t \<Rightarrow> int option" where
  "Int64FromNull ni = (if \<not> ni_Valid ni then None else Some (ni_Int64 ni))"

section \<open>Domain model\<close>

text \<open>
  The identifier type is a parameter: the model structs declare \<open>int64\<close>, the
  repositories compare identifiers with \<open>0\<close>, while the handler and the service pass the
  request's identifier through unchanged. The transient relation slots (\<open>Vehicles\<close>,
  \<open>CustomerNotes\<close>, \<open>Stats\<close>, and \<open>Customer\<close> on a vehicle) are not persisted and none
  of the functions below reads or writes them.
\<close>

record 'i Customer =
  c_ID :: 'i
  c_TenantID :: string
  c_FirstName :: string
  c_LastName :: string
  c_Email :: "string option"
  c_Phone :: "string option"
  c_CustomerType :: string
  c_CompanyName :: "string option"
  c_TaxID :: "string option"
  c_Address :: "string option"
  c_Birthday :: "time option"
  c_Notes :: "string option"
  c_Preferences :: gomap
  c_IsActive :: bool
  c_CreatedAt :: time
  c_UpdatedAt :: time

record 'i CustomerUpdate =
  cu_ID :: 'i
  cu_FirstName :: "string option"
  cu_LastName :: "string option"
  cu_Email :: "string option"
  cu_Phone :: "string option"
  cu_CustomerType :: "string option"
  cu_CompanyName :: "string option"
  cu_TaxID :: "string option"
  cu_Address :: "string option"
  cu_Birthday :: "time option"
  cu_Notes :: "string option"
  cu_Preferences :: gomap
  cu_IsActive :: "bool option"

record 'i Vehicle =
  v_ID :: 'i
  v_CustomerID :: 'i
  v_Make :: string
  v_Model :: string
  v_Year :: int
  v_VIN :: "string option"
  v_LicensePlate :: "string option"
  v_Color :: "string option"
  v_Engine :: "string option"
  v_Notes :: "string option"
  v_IsActive :: bool
  v_Metadata :: gomap
  v_CreatedAt :: time
  v_UpdatedAt :: time

record 'i VehicleUpdate =
  vu_ID :: 'i
  vu_Make :: "string option"
  vu_Model :: "string option"
  vu_Year :: "int option"
  vu_VIN :: "string option"
  vu_LicensePlate :: "string option"
  vu_Color :: "string option"
  vu_Engine :: "string option"
  vu_Notes :: "string option"
  vu_IsActive :: "bool option"
  vu_Metadata :: gomap

subsection \<open>Activation\<close>


definition Customer_Activate :: "time \<Rightarrow> 'i Customer \<Rightarrow> 'i Customer" where
  "Customer_Activate now c = c\<lparr>c_IsActive := True, c_UpdatedAt := now\<rparr>"

subsection \<open>Partial updates\<close>

text \<open>
  A guarded assignment \<open>if p != nil { assign(*p) }\<close>: the entity is left as it is
  when the pointer is nil.
\<close>

definition when_set :: "'a option \<Rightarrow> ('a \<Rightarrow> 'r \<Rightarrow> 'r) \<Rightarrow> 'r \<Rightarrow> 'r" where
  "when_set p assign r = (case p of None \<Rightarrow> r | Some x \<Rightarrow> assign x r)"

text \<open>
  \<open>Customer.UpdateFromUpdate\<close>: one guarded assignment per field, run in the order
  of the source, then the unconditional stamp of \<open>UpdatedAt\<close>. A pointer field of the
  update is copied as a pointer, so the entity's optional field becomes present with
  that value. A nil \<open>Preferences\<close> map counts as absent.
\<close>

definition Customer_UpdateFromUpdate ::
  "time \<Rightarrow> 'i Customer \<Rightarrow> 'j CustomerUpdate \<Rightarrow> 'i Customer" where
  "Customer_UpdateFromUpdate now c u =
    fold (\<lambda>step. step)
      [ when_set (cu_FirstName u) (\<lambda>x c. c\<lparr>c_FirstName := x\<rparr>),
        when_set (cu_LastName u) (\<lambda>x c. c\<lparr>c_LastName := x\<rparr>),
        when_set (cu_Email u) (\<lambda>x c. c\<lparr>c_Email := Some x\<rparr>),
        when_set (cu_Phone u) (\<lambda>x c. c\<lparr>c_Phone := Some x\<rparr>),
        when_set (cu_CustomerType u) (\<lambda>x c. c\<lparr>c_CustomerType := x\<rparr>),
        when_set (cu_CompanyName u) (\<lambda>x c. c\<lparr>c_CompanyName := Some x\<rparr>),
        when_set (cu_TaxID u) (\<lambda>x c. c\<lparr>c_TaxID := Some x\<rparr>),
        when_set (cu_Address u) (\<lambda>x c. c\<lparr>c_Address := Some x\<rparr>),
        when_set (cu_Birthday u) (\<lambda>x c. c\<lparr>c_Birthday := Some x\<rparr>),
        when_set (cu_Notes u) (\<lambda>x c. c\<lparr>c_Notes := Some x\<rparr>),
        when_set (cu_Preferences u) (\<lambda>m c. c\<lparr>c_Preferences := Some m\<rparr>),
        when_set (cu_IsActive u) (\<lambda>b c. c\<lparr>c_IsActive := b\<rparr>),
        (\<lambda>c. c\<lparr>c_UpdatedAt := now\<rparr>) ] c"

definition Vehicle_UpdateFromUpdate ::
  "time \<Rightarrow> 'i Vehicle \<Rightarrow> 'j VehicleUpdate \<Rightarrow> 'i Vehicle" where
  "Vehicle_UpdateFromUpdate now v u =
    fold (\<lambda>step. step)
      [ when_set (vu_Make u) (\<lambda>x v. v\<lparr>v_Make := x\<rparr>),
        when_set (vu_Model u) (\<lambda>x v. v\<lparr>v_Model := x\<rparr>),
        when_set (vu_Year u) (\<lambda>x v. v\<lparr>v_Year := x\<rparr>),
        when_set (vu_VIN u) (\<lambda>x v. v\<lparr>v_VIN := Some x\<rparr>),
        when_set (vu_LicensePlate u) (\<lambda>x v. v\<lparr>v_LicensePlate := Some x\<rparr>),
        when_set (vu_Color u) (\<lambda>x v. v\<lparr>v_Color := Some x\<rparr>),
        when_set (vu_Engine u) (\<lambda>x v. v\<lparr>v_Engine := Some x\<rparr>),
        when_set (vu_Notes u) (\<lambda>x v. v\<lparr>v_Notes := Some x\<rparr>),
        when_set (vu_IsActive u) (\<lambda>b v. v\<lparr>v_IsActive := b\<rparr>),
        when_set (vu_Metadata u) (\<lambda>m v. v\<lparr>v_Metadata := Some m\<rparr>),
        (\<lambda>v. v\<lparr>v_UpdatedAt := now\<rparr>) ] v"

subsection \<open>Vehicle validation\<close>

text \<open>
  \<open>Vehicle.Validate\<close> and \<open>Vehicle.ValidateVIN\<close>; the services call them in this
  order on the create and on the update path. \<open>len\<close> is the byte length. The source
  ranges over the runes of the VIN; a rune equals the ASCII letter \<open>I\<close>, \<open>O\<close> or \<open>Q\<close>
  exactly when the corresponding byte occurs, since no byte of a multi-byte UTF-8
  sequence (or of an invalid one) is below 128.
\<close>

definition Vehicle_Validate :: "int Vehicle \<Rightarrow> error option" where
  "Vehicle_Validate v =
    (if v_CustomerID v \<le> 0 then
       Some (ValidationError ''customer_id'' ''ID de cliente es requerido'')
     else if v_Make v = [] then
       Some (ValidationError ''make'' ''la marca es requerida'')
     else if v_Model v = [] then
       Some (ValidationError ''model'' ''el modelo es requerido'')
     else if v_Year v < 1900 \<or> v_Year v > 2100 then
       Some (ValidationError ''year'' ''anio invalido'')
     else if (case v_VIN v of None \<Rightarrow> False | Some s \<Rightarrow> length s > 0 \<and> length s \<noteq> 17) then
       Some (ValidationError ''vin'' ''VIN debe tener exactamente 17 caracteres'')
     else None)"

definition prohibitedChars :: string where
  "prohibitedChars = ''IOQ''"

definition ValidateVIN :: "'i Vehicle \<Rightarrow> error option" where
  "ValidateVIN v =
    (case v_VIN v of
       None \<Rightarrow> None
     | Some vin \<Rightarrow>
         if vin = [] then None
         else if length vin \<noteq> 17 then
           Some (ValidationError ''vin'' ''VIN debe tener exactamente 17 caracteres'')
         else if list_ex (\<lambda>char. list_ex (\<lambda>prohibited. char = prohibited) prohibitedChars) vin then
           Some (ValidationError ''vin'' ''VIN no puede contener las letras I, O o Q'')
         else None)"

section \<open>Transport adapter: decoding an update request\<close>




datatype status = InvalidArgument string | NotFoundStatus | AlreadyExists | Internal


section \<open>Tenant context carrier\<close>

text \<open>
  A \<open>context.Context\<close> is an immutable chain of key/value attachments; \<open>Value\<close>
  returns the most recent attachment for a key. \<open>TenantIDKey\<close> has the package's
  own key type, so no other package can attach under it. \<open>GetTenantID\<close> asserts the
  stored value to be a string.
\<close>

datatype ctx_key = TenantIDKey | ForeignKey string

datatype ctx_val = StringVal string | ForeignVal

type_synonym Context = "(ctx_key \<times> ctx_val) list"


definition Value :: "Context \<Rightarrow> ctx_key \<Rightarrow> ctx_val option" where
  "Value ctx k = map_of ctx k"


definition GetTenantID :: "Context \<Rightarrow> string \<times> bool" where
  "GetTenantID ctx =
    (case Value ctx TenantIDKey of Some (StringVal tenantID) \<Rightarrow> (tenantID, True) | _ \<Rightarrow> ([], False))"

definition GetTenantIDFromContext :: "Context \<Rightarrow> error + string" where
  "GetTenantIDFromContext ctx =
    (case GetTenantID ctx of (tenantID, ok) \<Rightarrow>
       if \<not> ok then Inl ErrTenantNotFound else Inr tenantID)"

section \<open>Session-scoped data store\<close>

text \<open>
  The store wraps a \<open>database/sql\<close> pool. What the pool and the database server do is
  outside the repository; the model fixes the following.
  \<^item> The pool holds numbered connections. Each pooled call (\<open>db.ExecContext\<close>,
    \<open>db.QueryContext\<close>, \<open>db.QueryRowContext\<close>, \<open>db.BeginTx\<close>) checks one
    connection out, and which one it gets is the pool's choice: \<open>handout\<close> lists the
    choices of the successive checkouts (connection \<open>0\<close> once the list is used up).
  \<^item> Every connection has a session holding \<open>app.current_tenant_id\<close>; a statement
    is answered under the directive of the session it runs on.
  \<^item> A transaction owns its connection from begin to commit or rollback and works on
    a copy of the rows and of the session's directive that commit installs and rollback
    discards.
  \<^item> \<open>journal\<close> records every statement sent to the server, with the connection it
    ran on and that connection's directive when it arrived.
  The statement \<open>SetTenant t\<close> is the text
  \<open>fmt.Sprintf("SET app.current_tenant_id = '%s'", t)\<close>.
\<close>

datatype 'q stmt = SetTenant string | Query 'q

datatype 'q event =
    OnPool nat "string option" "'q stmt"
  | TxBegin nat
  | InTx nat "string option" "'q stmt"
  | TxCommit nat
  | TxRollback nat

record ('q, 'd, 'r) server =
  set_error :: "string \<Rightarrow> error option"
  answer :: "string option \<Rightarrow> 'q \<Rightarrow> 'd \<Rightarrow> (error + 'r) \<times> 'd"
  begin_error :: "error option"
  commit_error :: "error option"

record ('q, 'd) DB =
  directive :: "nat \<Rightarrow> string option"
  handout :: "nat list"
  rows :: 'd
  open_tx :: "nat \<Rightarrow> ('d \<times> string option) option"
  journal :: "'q event list"

definition ErrTxDone :: error where
  "ErrTxDone = ErrDriver ''sql: transaction has already been committed or rolled back''"

definition checkout :: "('q, 'd) DB \<Rightarrow> nat \<times> ('q, 'd) DB" where
  "checkout db = (case handout db of [] \<Rightarrow> (0, db) | i # rest \<Rightarrow> (i, db\<lparr>handout := rest\<rparr>))"

definition record_event :: "'q event \<Rightarrow> ('q, 'd) DB \<Rightarrow> ('q, 'd) DB" where
  "record_event e db = db\<lparr>journal := journal db @ [e]\<rparr>"

text \<open>One statement on the session of connection \<open>i\<close>, outside any transaction.\<close>

definition session_set ::
  "('q, 'd, 'r) server \<Rightarrow> nat \<Rightarrow> string \<Rightarrow> ('q, 'd) DB \<Rightarrow> error option \<times> ('q, 'd) DB" where
  "session_set S i t db =
    (let db1 = record_event (OnPool i (directive db i) (SetTenant t)) db in
     (case set_error S t of
        Some e \<Rightarrow> (Some e, db1)
      | None \<Rightarrow> (None, db1\<lparr>directive := (directive db1)(i := Some t)\<rparr>)))"

definition session_query ::
  "('q, 'd, 'r) server \<Rightarrow> nat \<Rightarrow> 'q \<Rightarrow> ('q, 'd) DB \<Rightarrow> (error + 'r) \<times> ('q, 'd) DB" where
  "session_query S i q db =
    (let db1 = record_event (OnPool i (directive db i) (Query q)) db in
     (case answer S (directive db i) q (rows db) of
        (res, d) \<Rightarrow> (res, db1\<lparr>rows := d\<rparr>)))"

text \<open>
  \<open>db.ExecContext\<close>, \<open>db.QueryContext\<close> and \<open>db.QueryRowContext\<close> of the embedded
  \<open>*sql.DB\<close>: check a connection out, run the statement on it, hand it back. They
  differ in the Go type of what they return, which the server's answer stands for.
\<close>

definition ExecContext ::
  "('q, 'd, 'r) server \<Rightarrow> 'q \<Rightarrow> ('q, 'd) DB \<Rightarrow> (error + 'r) \<times> ('q, 'd) DB" where
  "ExecContext S q db = (case checkout db of (i, db1) \<Rightarrow> session_query S i q db1)"

definition QueryContext ::
  "('q, 'd, 'r) server \<Rightarrow> 'q \<Rightarrow> ('q, 'd) DB \<Rightarrow> (error + 'r) \<times> ('q, 'd) DB" where
  "QueryContext S q db = (case checkout db of (i, db1) \<Rightarrow> session_query S i q db1)"

definition QueryRowContext ::
  "('q, 'd, 'r) server \<Rightarrow> 'q \<Rightarrow> ('q, 'd) DB \<Rightarrow> (error + 'r) \<times> ('q, 'd) DB" where
  "QueryRowContext S q db = (case checkout db of (i, db1) \<Rightarrow> session_query S i q db1)"

text \<open>\<open>DB.SetTenantID\<close>: the directive, sent through \<open>db.ExecContext\<close>.\<close>

definition SetTenantID ::
  "('q, 'd, 'r) server \<Rightarrow> string \<Rightarrow> ('q, 'd) DB \<Rightarrow> error option \<times> ('q, 'd) DB" where
  "SetTenantID S tenantID db = (case checkout db of (i, db1) \<Rightarrow> session_set S i tenantID db1)"

definition ExecWithTenant ::
  "('q, 'd, 'r) server \<Rightarrow> string \<Rightarrow> 'q \<Rightarrow> ('q, 'd) DB \<Rightarrow> (error + 'r) \<times> ('q, 'd) DB" where
  "ExecWithTenant S tenantID q db =
    (case SetTenantID S tenantID db of
       (Some err, db1) \<Rightarrow> (Inl err, db1)
     | (None, db1) \<Rightarrow> ExecContext S q db1)"

definition QueryWithTenant ::
  "('q, 'd, 'r) server \<Rightarrow> string \<Rightarrow> 'q \<Rightarrow> ('q, 'd) DB \<Rightarrow> (error + 'r) \<times> ('q, 'd) DB" where
  "QueryWithTenant S tenantID q db =
    (case SetTenantID S tenantID db of
       (Some err, db1) \<Rightarrow> (Inl err, db1)
     | (None, db1) \<Rightarrow> QueryContext S q db1)"

text \<open>
  \<open>QueryRowWithTenant\<close> drops the directive's error (``ignore error as we can't return
  it from QueryRow'') and goes on to the query.
\<close>

definition QueryRowWithTenant ::
  "('q, 'd, 'r) server \<Rightarrow> string \<Rightarrow> 'q \<Rightarrow> ('q, 'd) DB \<Rightarrow> (error + 'r) \<times> ('q, 'd) DB" where
  "QueryRowWithTenant S tenantID q db =
    (case SetTenantID S tenantID db of (_, db1) \<Rightarrow> QueryRowContext S q db1)"

subsection \<open>Transactions\<close>

text \<open>A \<open>*sql.Tx\<close> is known by the connection it owns.\<close>

definition BeginTx ::
  "('q, 'd, 'r) server \<Rightarrow> ('q, 'd) DB \<Rightarrow> (error + nat) \<times> ('q, 'd) DB" where
  "BeginTx S db =
    (case checkout db of (i, db1) \<Rightarrow>
       (case begin_error S of
          Some e \<Rightarrow> (Inl e, db1)
        | None \<Rightarrow>
            (Inr i, record_event (TxBegin i)
               (db1\<lparr>open_tx := (open_tx db1)(i := Some (rows db1, directive db1 i))\<rparr>))))"

definition Tx_set ::
  "('q, 'd, 'r) server \<Rightarrow> nat \<Rightarrow> string \<Rightarrow> ('q, 'd) DB \<Rightarrow> error option \<times> ('q, 'd) DB" where
  "Tx_set S tx t db =
    (case open_tx db tx of
       None \<Rightarrow> (Some ErrTxDone, db)
     | Some (d, dir) \<Rightarrow>
         (let db1 = record_event (InTx tx dir (SetTenant t)) db in
          (case set_error S t of
             Some e \<Rightarrow> (Some e, db1)
           | None \<Rightarrow> (None, db1\<lparr>open_tx := (open_tx db1)(tx := Some (d, Some t))\<rparr>))))"

text \<open>\<open>tx.ExecContext\<close> and \<open>tx.QueryRowContext\<close> on a statement other than the directive.\<close>

definition Tx_query ::
  "('q, 'd, 'r) server \<Rightarrow> nat \<Rightarrow> 'q \<Rightarrow> ('q, 'd) DB \<Rightarrow> (error + 'r) \<times> ('q, 'd) DB" where
  "Tx_query S tx q db =
    (case open_tx db tx of
       None \<Rightarrow> (Inl ErrTxDone, db)
     | Some (d, dir) \<Rightarrow>
         (let db1 = record_event (InTx tx dir (Query q)) db in
          (case answer S dir q d of
             (res, d') \<Rightarrow> (res, db1\<lparr>open_tx := (open_tx db1)(tx := Some (d', dir))\<rparr>))))"

definition Tx_Rollback ::
  "('q, 'd, 'r) server \<Rightarrow> nat \<Rightarrow> ('q, 'd) DB \<Rightarrow> error option \<times> ('q, 'd) DB" where
  "Tx_Rollback S tx db =
    (case open_tx db tx of
       None \<Rightarrow> (Some ErrTxDone, db)
     | Some _ \<Rightarrow> (None, record_event (TxRollback tx) (db\<lparr>open_tx := (open_tx db)(tx := None)\<rparr>)))"

text \<open>A commit that the server refuses ends the transaction without installing its rows.\<close>

definition Tx_Commit ::
  "('q, 'd, 'r) server \<Rightarrow> nat \<Rightarrow> ('q, 'd) DB \<Rightarrow> error option \<times> ('q, 'd) DB" where
  "Tx_Commit S tx db =
    (case open_tx db tx of
       None \<Rightarrow> (Some ErrTxDone, db)
     | Some (d, dir) \<Rightarrow>
         (let db1 = record_event (TxCommit tx) (db\<lparr>open_tx := (open_tx db)(tx := None)\<rparr>) in
          (case commit_error S of
             Some e \<Rightarrow> (Some e, db1)
           | None \<Rightarrow> (None, db1\<lparr>rows := d, directive := (directive db1)(tx := dir)\<rparr>))))"

definition BeginTxWithTenant ::
  "('q, 'd, 'r) server \<Rightarrow> string \<Rightarrow> ('q, 'd) DB \<Rightarrow> (error + nat) \<times> ('q, 'd) DB" where
  "BeginTxWithTenant S tenantID db =
    (case BeginTx S db of
       (Inl err, db1) \<Rightarrow> (Inl err, db1)
     | (Inr tx, db1) \<Rightarrow>
         (case Tx_set S tx tenantID db1 of
            (Some err, db2) \<Rightarrow>
              (Inl (Wrapped ''failed to set tenant ID'' err), snd (Tx_Rollback S tx db2))
          | (None, db2) \<Rightarrow> (Inr tx, db2)))"

text \<open>
  The function handed to \<open>TransactionWithTenant\<close> either returns (an error or nil) or
  panics; the store has no \<open>recover\<close>, so a panic leaves \<open>TransactionWithTenant\<close>
  at once.
\<close>

datatype 'a outcome = Returns 'a | Panics string

definition TransactionWithTenant ::
  "('q, 'd, 'r) server \<Rightarrow> string \<Rightarrow> (nat \<Rightarrow> ('q, 'd) DB \<Rightarrow> error option outcome \<times> ('q, 'd) DB)
     \<Rightarrow> ('q, 'd) DB \<Rightarrow> error option outcome \<times> ('q, 'd) DB" where
  "TransactionWithTenant S tenantID fn db =
    (case BeginTxWithTenant S tenantID db of
       (Inl err, db1) \<Rightarrow> (Returns (Some err), db1)
     | (Inr tx, db1) \<Rightarrow>
         (case fn tx db1 of
            (Panics p, db2) \<Rightarrow> (Panics p, db2)
          | (Returns (Some err), db2) \<Rightarrow> (Returns (Some err), snd (Tx_Rollback S tx db2))
          | (Returns None, db2) \<Rightarrow>
              (case Tx_Commit S tx db2 of (r, db3) \<Rightarrow> (Returns r, db3))))"

section \<open>SQL statements and results\<close>

text \<open>
  The repositories' SQL texts, in structured form. A \<open>cond list\<close> is the list
  \<open>whereConditions\<close> that the source joins with \<open>AND\<close> (the empty list: no
  \<open>WHERE\<close> clause); the statements written as one literal are split at their
  \<open>AND\<close>s in the same way. Columns keep the names and aliases of the source text.
  \<^item> \<open>Count r w\<close>: \<open>SELECT COUNT(*) FROM r WHERE w\<close>.
  \<^item> \<open>Rows r w o l k\<close>: \<open>SELECT <the entity's columns> FROM r WHERE w ORDER BY o
    LIMIT l OFFSET k\<close>, each clause present when its part is.
  \<^item> \<open>Insert t vs\<close>: \<open>INSERT INTO t (...) VALUES (vs) RETURNING id, created_at
    [, updated_at]\<close>.
  \<^item> \<open>Update t vs\<close>: \<open>UPDATE t SET ... WHERE id = $1\<close>, \<open>vs\<close> being \<open>$1, $2, ...\<close>;
    for vehicles with \<open>FROM customers c\<close> and \<open>vehicles.customer_id = c.id\<close>.
  \<^item> \<open>Delete t id\<close>: \<open>DELETE FROM t WHERE id = $1\<close>; for vehicles and notes
    \<open>USING customers c\<close> with the join on \<open>customer_id\<close>.
  \<^item> \<open>NoteTypesCount\<close> and \<open>MostActiveStaff\<close>: the two \<open>GROUP BY\<close> statements of
    the note repository.
\<close>

datatype expr = Col string | FullName

datatype cond =
    Eq string cell
  | NotEq string cell
  | ILike expr string
  | IsTrue string
  | IsFalse string
  | AtLeast string cell
  | AtMost string cell
  | AnyOf "cond list"

datatype order_by = Asc string | Desc string | SearchRank string string

datatype relation = Customers | VehiclesJoinCustomers | NotesJoinCustomers

datatype table = CustomersT | VehiclesT | CustomerNotesT

datatype sql =
    Count relation "cond list"
  | Rows relation "cond list" "order_by list" "int option" "int option"
  | Insert table row
  | Update table row
  | Delete table cell
  | NoteTypesCount cell
  | MostActiveStaff int

text \<open>
  What a statement gives back: the number of rows it affected, or a set of rows.
\<close>

datatype sql_result = Affected int | RowSet "row list"

subsection \<open>Reading results\<close>

definition ErrScan :: error where
  "ErrScan = ErrDriver ''sql: Scan error: unsupported conversion''"

text \<open>
  \<open>Result.RowsAffected\<close>, \<open>Row.Scan\<close> after \<open>QueryRowContext\<close> (the first row, or
  \<open>sql.ErrNoRows\<close>) and the rows of a \<open>QueryContext\<close>.
\<close>

definition RowsAffected :: "sql_result \<Rightarrow> int" where
  "RowsAffected res = (case res of Affected n \<Rightarrow> n | RowSet rs \<Rightarrow> int (length rs))"

definition result_rows :: "sql_result \<Rightarrow> row list" where
  "result_rows res = (case res of Affected n \<Rightarrow> [] | RowSet rs \<Rightarrow> rs)"

definition Row_Scan :: "(row \<Rightarrow> error + 'a) \<Rightarrow> error + sql_result \<Rightarrow> error + 'a" where
  "Row_Scan scan res =
    (case res of
       Inl err \<Rightarrow> Inl err
     | Inr r \<Rightarrow> (case result_rows r of [] \<Rightarrow> Inl ErrNoRows | first # _ \<Rightarrow> scan first))"

text \<open>The loop \<open>for rows.Next() { rows.Scan(...); append }\<close>, which stops at the first error.\<close>

fun scan_rows :: "(row \<Rightarrow> error + 'a) \<Rightarrow> row list \<Rightarrow> error + 'a list" where
  "scan_rows scan [] = Inr []"
| "scan_rows scan (r # rs) =
    (case scan r of
       Inl err \<Rightarrow> Inl err
     | Inr x \<Rightarrow> (case scan_rows scan rs of Inl err \<Rightarrow> Inl err | Inr xs \<Rightarrow> Inr (x # xs)))"

definition andThen :: "error + 'a \<Rightarrow> ('a \<Rightarrow> error + 'b) \<Rightarrow> error + 'b" where
  "andThen r k = (case r of Inl err \<Rightarrow> Inl err | Inr x \<Rightarrow> k x)"

definition wrap :: "string \<Rightarrow> error + 'a \<Rightarrow> error + 'a" where
  "wrap msg r = (case r of Inl err \<Rightarrow> Inl (Wrapped msg err) | Inr x \<Rightarrow> Inr x)"

subsection \<open>Column conversions\<close>

definition scanInt64 :: "cell \<Rightarrow> error + int" where
  "scanInt64 c = (case c of CInt n \<Rightarrow> Inr n | _ \<Rightarrow> Inl ErrScan)"

definition scanString :: "cell \<Rightarrow> error + string" where
  "scanString c = (case c of CStr s \<Rightarrow> Inr s | _ \<Rightarrow> Inl ErrScan)"

definition scanBool :: "cell \<Rightarrow> error + bool" where
  "scanBool c = (case c of CBool b \<Rightarrow> Inr b | _ \<Rightarrow> Inl ErrScan)"

definition scanTime :: "cell \<Rightarrow> error + time" where
  "scanTime c = (case c of CTime t \<Rightarrow> Inr t | _ \<Rightarrow> Inl ErrScan)"

definition scanNullString :: "cell \<Rightarrow> error + NullString_t" where
  "scanNullString c =
    (case c of
       CNull \<Rightarrow> Inr \<lparr>ns_String = [], ns_Valid = False\<rparr>
     | CStr s \<Rightarrow> Inr \<lparr>ns_String = s, ns_Valid = True\<rparr>
     | _ \<Rightarrow> Inl ErrScan)"

definition scanNullTime :: "cell \<Rightarrow> error + NullTime_t" where
  "scanNullTime c =
    (case c of
       CNull \<Rightarrow> Inr \<lparr>nt_Time = 0, nt_Valid = False\<rparr>
     | CTime t \<Rightarrow> Inr \<lparr>nt_Time = t, nt_Valid = True\<rparr>
     | _ \<Rightarrow> Inl ErrScan)"

text \<open>
  \<open>CustomerPreferences.Scan\<close> and \<open>VehicleMetadata.Scan\<close>: SQL \<open>NULL\<close> gives an
  empty map, bytes are unmarshalled, anything else is an error. \<open>Value\<close>: a nil map is
  written as \<open>NULL\<close>, any other as its JSON text.
\<close>

definition scanMap :: "cell \<Rightarrow> error + gomap" where
  "scanMap c =
    (case c of
       CNull \<Rightarrow> Inr (Some Map.empty)
     | CJson m \<Rightarrow> Inr (Some m)
     | _ \<Rightarrow> Inl (ErrDriver ''error al escanear: tipo invalido''))"

definition valueMap :: "gomap \<Rightarrow> cell" where
  "valueMap m = (case m of None \<Rightarrow> CNull | Some kv \<Rightarrow> CJson kv)"

definition valueNullString :: "NullString_t \<Rightarrow> cell" where
  "valueNullString ns = (if ns_Valid ns then CStr (ns_String ns) else CNull)"

definition valueNullTime :: "NullTime_t \<Rightarrow> cell" where
  "valueNullTime nt = (if nt_Valid nt then CTime (nt_Time nt) else CNull)"

section \<open>Customer repository\<close>

text \<open>
  Go's \<open>int\<close> is 64 bits wide here; the page number and the page size are the only
  integers the repositories compute with, so they are machine words (read as signed).
\<close>

type_synonym go_int = "64 word"

record CustomerFilter =
  cf_Search :: string
  cf_CustomerType :: string
  cf_ActiveOnly :: bool
  cf_Page :: go_int
  cf_Limit :: go_int
  cf_SortBy :: string
  cf_SortOrder :: string

record CustomerSearchFilter =
  sf_Query :: string
  sf_SearchFields :: "string list"
  sf_Limit :: go_int

text \<open>
  The block \<open>// Build pagination\<close>, the same in the three \<open>List\<close> methods:
  \<open>limit := filter.Limit; if limit <= 0 { limit = 50 }\<close> and
  \<open>offset := 0; if filter.Page > 0 { offset = (filter.Page - 1) * limit }\<close>.
\<close>

definition list_limit :: "go_int \<Rightarrow> go_int" where
  "list_limit l = (if sint l \<le> 0 then 50 else l)"

definition list_offset :: "go_int \<Rightarrow> go_int \<Rightarrow> go_int" where
  "list_offset page limit = (if 0 < sint page then (page - 1) * limit else 0)"

text \<open>The sixteen columns every customer query selects, in the order of \<open>Scan\<close>.\<close>

definition scanCustomer :: "row \<Rightarrow> error + int Customer" where
  "scanCustomer r =
    (case r of
       [k1, k2, k3, k4, k5, k6, k7, k8, k9, k10, k11, k12, k13, k14, k15, k16] \<Rightarrow>
         andThen (scanInt64 k1) (\<lambda>vID.
         andThen (scanString k2) (\<lambda>vTenant.
         andThen (scanString k3) (\<lambda>vFirst.
         andThen (scanString k4) (\<lambda>vLast.
         andThen (scanNullString k5) (\<lambda>vEmail.
         andThen (scanNullString k6) (\<lambda>vPhone.
         andThen (scanString k7) (\<lambda>vType.
         andThen (scanNullString k8) (\<lambda>vCompany.
         andThen (scanNullString k9) (\<lambda>vTax.
         andThen (scanNullString k10) (\<lambda>vAddress.
         andThen (scanNullTime k11) (\<lambda>vBirthday.
         andThen (scanNullString k12) (\<lambda>vNotes.
         andThen (scanMap k13) (\<lambda>vPrefs.
         andThen (scanBool k14) (\<lambda>vActive.
         andThen (scanTime k15) (\<lambda>vCreated.
         andThen (scanTime k16) (\<lambda>vUpdated.
           Inr \<lparr> c_ID = vID, c_TenantID = vTenant, c_FirstName = vFirst, c_LastName = vLast,
                 c_Email = StringFromNull vEmail, c_Phone = StringFromNull vPhone,
                 c_CustomerType = vType, c_CompanyName = StringFromNull vCompany,
                 c_TaxID = StringFromNull vTax, c_Address = StringFromNull vAddress,
                 c_Birthday = TimeFromNull vBirthday, c_Notes = StringFromNull vNotes,
                 c_Preferences = vPrefs, c_IsActive = vActive,
                 c_CreatedAt = vCreated, c_UpdatedAt = vUpdated \<rparr>))))))))))))))))
     | _ \<Rightarrow> Inl ErrScan)"

definition scanCount :: "row \<Rightarrow> error + int" where
  "scanCount r = (case r of [n] \<Rightarrow> scanInt64 n | _ \<Rightarrow> Inl ErrScan)"

text \<open>\<open>RETURNING id, created_at, updated_at\<close>.\<close>

definition scanReturning :: "row \<Rightarrow> error + int \<times> time \<times> time" where
  "scanReturning r =
    (case r of
       [k1, k2, k3] \<Rightarrow>
         andThen (scanInt64 k1) (\<lambda>vID.
         andThen (scanTime k2) (\<lambda>vCreated.
         andThen (scanTime k3) (\<lambda>vUpdated. Inr (vID, vCreated, vUpdated))))
     | _ \<Rightarrow> Inl ErrScan)"

definition customer_Create ::
  "(sql, 'd, sql_result) server \<Rightarrow> Context \<Rightarrow> int Customer \<Rightarrow> (sql, 'd) DB
     \<Rightarrow> (error + int Customer) \<times> (sql, 'd) DB" where
  "customer_Create S ctx customer db =
    (case GetTenantIDFromContext ctx of
       Inl err \<Rightarrow> (Inl err, db)
     | Inr tenantID \<Rightarrow>
        (case QueryRowWithTenant S tenantID
                (Insert CustomersT
                  [CStr tenantID, CStr (c_FirstName customer), CStr (c_LastName customer),
                   valueNullString (NullString (c_Email customer)),
                   valueNullString (NullString (c_Phone customer)),
                   CStr (c_CustomerType customer),
                   valueNullString (NullString (c_CompanyName customer)),
                   valueNullString (NullString (c_TaxID customer)),
                   valueNullString (NullString (c_Address customer)),
                   valueNullTime (NullTime (c_Birthday customer)),
                   valueNullString (NullString (c_Notes customer)),
                   valueMap (c_Preferences customer), CBool (c_IsActive customer),
                   CTime (c_CreatedAt customer), CTime (c_UpdatedAt customer)]) db of
           (res, db1) \<Rightarrow>
             (case Row_Scan scanReturning res of
                Inl err \<Rightarrow> (Inl (Wrapped ''failed to create customer'' err), db1)
              | Inr (vID, vCreated, vUpdated) \<Rightarrow>
                  (Inr (customer\<lparr>c_ID := vID, c_CreatedAt := vCreated, c_UpdatedAt := vUpdated,
                                 c_TenantID := tenantID\<rparr>), db1))))"

definition customer_GetByID ::
  "(sql, 'd, sql_result) server \<Rightarrow> Context \<Rightarrow> int \<Rightarrow> (sql, 'd) DB
     \<Rightarrow> (error + int Customer) \<times> (sql, 'd) DB" where
  "customer_GetByID S ctx cid db =
    (case GetTenantIDFromContext ctx of
       Inl err \<Rightarrow> (Inl err, db)
     | Inr tenantID \<Rightarrow>
        (case QueryRowWithTenant S tenantID (Rows Customers [Eq ''id'' (CInt cid)] [] None None) db of
           (res, db1) \<Rightarrow>
             (case Row_Scan scanCustomer res of
                Inl err \<Rightarrow>
                  (if err = ErrNoRows then Inl (ErrEntityNotFound ''customer with ID'' (CInt cid))
                   else Inl (Wrapped ''failed to get customer'' err), db1)
              | Inr customer \<Rightarrow> (Inr customer, db1))))"

text \<open>The fourteen arguments of the customer \<open>UPDATE\<close>, \<open>$1\<close> being the identifier.\<close>

definition customer_update_values :: "int Customer \<Rightarrow> row" where
  "customer_update_values customer =
    [CInt (c_ID customer), CStr (c_FirstName customer), CStr (c_LastName customer),
     valueNullString (NullString (c_Email customer)),
     valueNullString (NullString (c_Phone customer)),
     CStr (c_CustomerType customer),
     valueNullString (NullString (c_CompanyName customer)),
     valueNullString (NullString (c_TaxID customer)),
     valueNullString (NullString (c_Address customer)),
     valueNullTime (NullTime (c_Birthday customer)),
     valueNullString (NullString (c_Notes customer)),
     valueMap (c_Preferences customer), CBool (c_IsActive customer),
     CTime (c_UpdatedAt customer)]"

definition customer_Update ::
  "(sql, 'd, sql_result) server \<Rightarrow> Context \<Rightarrow> int Customer \<Rightarrow> (sql, 'd) DB
     \<Rightarrow> error option \<times> (sql, 'd) DB" where
  "customer_Update S ctx customer db =
    (case GetTenantIDFromContext ctx of
       Inl err \<Rightarrow> (Some err, db)
     | Inr tenantID \<Rightarrow>
        (case ExecWithTenant S tenantID (Update CustomersT (customer_update_values customer)) db of
           (Inl err, db1) \<Rightarrow> (Some (Wrapped ''failed to update customer'' err), db1)
         | (Inr result, db1) \<Rightarrow>
             (if RowsAffected result = 0
              then Some (ErrEntityNotFound ''customer with ID'' (CInt (c_ID customer)))
              else None, db1)))"

definition customer_Delete ::
  "(sql, 'd, sql_result) server \<Rightarrow> Context \<Rightarrow> int \<Rightarrow> (sql, 'd) DB
     \<Rightarrow> error option \<times> (sql, 'd) DB" where
  "customer_Delete S ctx cid db =
    (case GetTenantIDFromContext ctx of
       Inl err \<Rightarrow> (Some err, db)
     | Inr tenantID \<Rightarrow>
        (case ExecWithTenant S tenantID (Delete CustomersT (CInt cid)) db of
           (Inl err, db1) \<Rightarrow> (Some (Wrapped ''failed to delete customer'' err), db1)
         | (Inr result, db1) \<Rightarrow>
             (if RowsAffected result = 0
              then Some (ErrEntityNotFound ''customer with ID'' (CInt cid))
              else None, db1)))"

text \<open>The \<open>WHERE\<close> conditions and the \<open>ORDER BY\<close> clause that \<open>List\<close> builds.\<close>

definition customer_where :: "CustomerFilter \<Rightarrow> cond list" where
  "customer_where flt =
    (if cf_Search flt \<noteq> [] then
       [AnyOf [ILike (Col ''first_name'') (''%'' @ cf_Search flt @ ''%''),
               ILike (Col ''last_name'') (''%'' @ cf_Search flt @ ''%''),
               ILike (Col ''email'') (''%'' @ cf_Search flt @ ''%''),
               ILike (Col ''company_name'') (''%'' @ cf_Search flt @ ''%'')]]
     else [])
    @ (if cf_CustomerType flt \<noteq> [] then [Eq ''customer_type'' (CStr (cf_CustomerType flt))]
       else [])
    @ (if cf_ActiveOnly flt then [IsTrue ''is_active''] else [])"

definition customer_orderBy :: "CustomerFilter \<Rightarrow> order_by list" where
  "customer_orderBy flt =
    (if cf_SortBy flt \<noteq> [] then
       (let direction = (if cf_SortOrder flt = ''desc'' then Desc else Asc) in
        if cf_SortBy flt = ''name'' then [direction ''first_name'', direction ''last_name'']
        else if cf_SortBy flt = ''created_at'' then [direction ''created_at'']
        else if cf_SortBy flt = ''company_name'' then [direction ''company_name'']
        else [Desc ''created_at''])
     else [Desc ''created_at''])"

definition customer_List ::
  "(sql, 'd, sql_result) server \<Rightarrow> Context \<Rightarrow> CustomerFilter \<Rightarrow> (sql, 'd) DB
     \<Rightarrow> (error + int Customer list \<times> int) \<times> (sql, 'd) DB" where
  "customer_List S ctx flt db =
    (case GetTenantIDFromContext ctx of
       Inl err \<Rightarrow> (Inl err, db)
     | Inr tenantID \<Rightarrow>
        (case QueryRowWithTenant S tenantID (Count Customers (customer_where flt)) db of
           (res, db1) \<Rightarrow>
             (case Row_Scan scanCount res of
                Inl err \<Rightarrow> (Inl (Wrapped ''failed to count customers'' err), db1)
              | Inr totalCount \<Rightarrow>
                 (let limit = list_limit (cf_Limit flt);
                      offset = list_offset (cf_Page flt) limit
                  in case QueryWithTenant S tenantID
                            (Rows Customers (customer_where flt) (customer_orderBy flt)
                               (Some (sint limit)) (Some (sint offset))) db1 of
                       (Inl err, db2) \<Rightarrow> (Inl (Wrapped ''failed to list customers'' err), db2)
                     | (Inr rs, db2) \<Rightarrow>
                        (case scan_rows scanCustomer (result_rows rs) of
                           Inl err \<Rightarrow> (Inl (Wrapped ''failed to scan customer'' err), db2)
                         | Inr customers \<Rightarrow> (Inr (customers, totalCount), db2))))))"

text \<open>\<open>Search\<close>: the condition each search field contributes; unknown fields contribute none.\<close>

definition searchCondition :: "string \<Rightarrow> string \<Rightarrow> cond list" where
  "searchCondition pat field =
    (if field = ''name'' then
       [AnyOf [ILike (Col ''first_name'') pat, ILike (Col ''last_name'') pat, ILike FullName pat]]
     else if field = ''email'' then [ILike (Col ''email'') pat]
     else if field = ''phone'' then [ILike (Col ''phone'') pat]
     else if field = ''tax_id'' then [ILike (Col ''tax_id'') pat]
     else if field = ''company_name'' then [ILike (Col ''company_name'') pat]
     else [])"

definition customer_Search ::
  "(sql, 'd, sql_result) server \<Rightarrow> Context \<Rightarrow> CustomerSearchFilter \<Rightarrow> (sql, 'd) DB
     \<Rightarrow> (error + int Customer list) \<times> (sql, 'd) DB" where
  "customer_Search S ctx flt db =
    (case GetTenantIDFromContext ctx of
       Inl err \<Rightarrow> (Inl err, db)
     | Inr tenantID \<Rightarrow>
        if sf_Query flt = [] then (Inr [], db)
        else
         (let searchFields =
                (if sf_SearchFields flt = [] then [''name'', ''email'', ''phone'', ''tax_id'']
                 else sf_SearchFields flt);
              searchTerm = ''%'' @ sf_Query flt @ ''%'';
              searchConditions = concat (map (searchCondition searchTerm) searchFields)
          in if searchConditions = [] then (Inr [], db)
             else
              (let limit = (if sint (sf_Limit flt) \<le> 0 then 20 else sf_Limit flt)
               in case QueryWithTenant S tenantID
                         (Rows Customers [AnyOf searchConditions, IsTrue ''is_active'']
                            [SearchRank searchTerm (sf_Query flt), Asc ''first_name'',
                             Asc ''last_name'']
                            (Some (sint limit)) None) db of
                    (Inl err, db1) \<Rightarrow> (Inl (Wrapped ''failed to search customers'' err), db1)
                  | (Inr rs, db1) \<Rightarrow>
                     (case scan_rows scanCustomer (result_rows rs) of
                        Inl err \<Rightarrow> (Inl (Wrapped ''failed to scan customer'' err), db1)
                      | Inr customers \<Rightarrow> (Inr customers, db1)))))"

definition customer_GetByEmail ::
  "(sql, 'd, sql_result) server \<Rightarrow> Context \<Rightarrow> string \<Rightarrow> (sql, 'd) DB
     \<Rightarrow> (error + int Customer) \<times> (sql, 'd) DB" where
  "customer_GetByEmail S ctx email db =
    (case GetTenantIDFromContext ctx of
       Inl err \<Rightarrow> (Inl err, db)
     | Inr tenantID \<Rightarrow>
        (case QueryRowWithTenant S tenantID
                (Rows Customers [Eq ''email'' (CStr email)] [] None None) db of
           (res, db1) \<Rightarrow>
             (case Row_Scan scanCustomer res of
                Inl err \<Rightarrow>
                  (if err = ErrNoRows then Inl (ErrEntityNotFound ''customer with email'' (CStr email))
                   else Inl (Wrapped ''failed to get customer by email'' err), db1)
              | Inr customer \<Rightarrow> (Inr customer, db1))))"

definition customer_GetByTaxID ::
  "(sql, 'd, sql_result) server \<Rightarrow> Context \<Rightarrow> string \<Rightarrow> (sql, 'd) DB
     \<Rightarrow> (error + int Customer) \<times> (sql, 'd) DB" where
  "customer_GetByTaxID S ctx taxID db =
    (case GetTenantIDFromContext ctx of
       Inl err \<Rightarrow> (Inl err, db)
     | Inr tenantID \<Rightarrow>
        (case QueryRowWithTenant S tenantID
                (Rows Customers [Eq ''tax_id'' (CStr taxID)] [] None None) db of
           (res, db1) \<Rightarrow>
             (case Row_Scan scanCustomer res of
                Inl err \<Rightarrow>
                  (if err = ErrNoRows then Inl (ErrEntityNotFound ''customer with tax ID'' (CStr taxID))
                   else Inl (Wrapped ''failed to get customer by tax ID'' err), db1)
              | Inr customer \<Rightarrow> (Inr customer, db1))))"

definition customer_ListByType ::
  "(sql, 'd, sql_result) server \<Rightarrow> Context \<Rightarrow> string \<Rightarrow> go_int \<Rightarrow> go_int \<Rightarrow> (sql, 'd) DB
     \<Rightarrow> (error + int Customer list \<times> int) \<times> (sql, 'd) DB" where
  "customer_ListByType S ctx customerType page limit db =
    customer_List S ctx
      \<lparr> cf_Search = [], cf_CustomerType = customerType, cf_ActiveOnly = False, cf_Page = page,
        cf_Limit = limit, cf_SortBy = [], cf_SortOrder = [] \<rparr> db"

definition customer_ListActive ::
  "(sql, 'd, sql_result) server \<Rightarrow> Context \<Rightarrow> go_int \<Rightarrow> go_int \<Rightarrow> (sql, 'd) DB
     \<Rightarrow> (error + int Customer list \<times> int) \<times> (sql, 'd) DB" where
  "customer_ListActive S ctx page limit db =
    customer_List S ctx
      \<lparr> cf_Search = [], cf_CustomerType = [], cf_ActiveOnly = True, cf_Page = page,
        cf_Limit = limit, cf_SortBy = [], cf_SortOrder = [] \<rparr> db"

text \<open>\<open>ListInactive\<close> passes \<open>limit\<close> on as it is: it has no default page size.\<close>

definition customer_ListInactive ::
  "(sql, 'd, sql_result) server \<Rightarrow> Context \<Rightarrow> go_int \<Rightarrow> go_int \<Rightarrow> (sql, 'd) DB
     \<Rightarrow> (error + int Customer list \<times> int) \<times> (sql, 'd) DB" where
  "customer_ListInactive S ctx page limit db =
    (case GetTenantIDFromContext ctx of
       Inl err \<Rightarrow> (Inl err, db)
     | Inr tenantID \<Rightarrow>
        (case QueryRowWithTenant S tenantID (Count Customers [IsFalse ''is_active'']) db of
           (res, db1) \<Rightarrow>
             (case Row_Scan scanCount res of
                Inl err \<Rightarrow> (Inl (Wrapped ''failed to count inactive customers'' err), db1)
              | Inr totalCount \<Rightarrow>
                 (let offset = list_offset page limit
                  in case QueryWithTenant S tenantID
                            (Rows Customers [IsFalse ''is_active''] [Desc ''updated_at'']
                               (Some (sint limit)) (Some (sint offset))) db1 of
                       (Inl err, db2) \<Rightarrow>
                         (Inl (Wrapped ''failed to list inactive customers'' err), db2)
                     | (Inr rs, db2) \<Rightarrow>
                        (case scan_rows scanCustomer (result_rows rs) of
                           Inl err \<Rightarrow> (Inl (Wrapped ''failed to scan customer'' err), db2)
                         | Inr customers \<Rightarrow> (Inr (customers, totalCount), db2))))))"

text \<open>
  The counting operations: one \<open>SELECT COUNT(*)\<close> through \<open>QueryRowWithTenant\<close>, its
  error wrapped with the operation's message.
\<close>

definition count_query ::
  "(sql, 'd, sql_result) server \<Rightarrow> Context \<Rightarrow> relation \<Rightarrow> cond list \<Rightarrow> string \<Rightarrow> (sql, 'd) DB
     \<Rightarrow> (error + int) \<times> (sql, 'd) DB" where
  "count_query S ctx rel conds msg db =
    (case GetTenantIDFromContext ctx of
       Inl err \<Rightarrow> (Inl err, db)
     | Inr tenantID \<Rightarrow>
        (case QueryRowWithTenant S tenantID (Count rel conds) db of
           (res, db1) \<Rightarrow> (wrap msg (Row_Scan scanCount res), db1)))"

definition customer_Count ::
  "(sql, 'd, sql_result) server \<Rightarrow> Context \<Rightarrow> (sql, 'd) DB \<Rightarrow> (error + int) \<times> (sql, 'd) DB" where
  "customer_Count S ctx db = count_query S ctx Customers [] ''failed to count customers'' db"

definition customer_CountByType ::
  "(sql, 'd, sql_result) server \<Rightarrow> Context \<Rightarrow> string \<Rightarrow> (sql, 'd) DB
     \<Rightarrow> (error + int) \<times> (sql, 'd) DB" where
  "customer_CountByType S ctx customerType db =
    count_query S ctx Customers [Eq ''customer_type'' (CStr customerType)]
      ''failed to count customers by type'' db"

definition customer_CountActive ::
  "(sql, 'd, sql_result) server \<Rightarrow> Context \<Rightarrow> (sql, 'd) DB \<Rightarrow> (error + int) \<times> (sql, 'd) DB" where
  "customer_CountActive S ctx db =
    count_query S ctx Customers [IsTrue ''is_active''] ''failed to count active customers'' db"

text \<open>
  The existence checks: a count with an optional \<open>AND id != $2\<close>, answered by
  \<open>count > 0\<close>.
\<close>

definition exists_query ::
  "(sql, 'd, sql_result) server \<Rightarrow> Context \<Rightarrow> relation \<Rightarrow> cond \<Rightarrow> string \<Rightarrow> int option
     \<Rightarrow> string \<Rightarrow> (sql, 'd) DB \<Rightarrow> (error + bool) \<times> (sql, 'd) DB" where
  "exists_query S ctx rel c idcol excludeID msg db =
    (case GetTenantIDFromContext ctx of
       Inl err \<Rightarrow> (Inl err, db)
     | Inr tenantID \<Rightarrow>
        (case QueryRowWithTenant S tenantID
                (Count rel (c # (case excludeID of None \<Rightarrow> [] | Some x \<Rightarrow> [NotEq idcol (CInt x)]))) db of
           (res, db1) \<Rightarrow>
             (case Row_Scan scanCount res of
                Inl err \<Rightarrow> (Inl (Wrapped msg err), db1)
              | Inr n \<Rightarrow> (Inr (n > 0), db1))))"

definition customer_ExistsByEmail ::
  "(sql, 'd, sql_result) server \<Rightarrow> Context \<Rightarrow> string \<Rightarrow> int option \<Rightarrow> (sql, 'd) DB
     \<Rightarrow> (error + bool) \<times> (sql, 'd) DB" where
  "customer_ExistsByEmail S ctx email excludeID db =
    exists_query S ctx Customers (Eq ''email'' (CStr email)) ''id'' excludeID
      ''failed to check email existence'' db"

definition customer_ExistsByTaxID ::
  "(sql, 'd, sql_result) server \<Rightarrow> Context \<Rightarrow> string \<Rightarrow> int option \<Rightarrow> (sql, 'd) DB
     \<Rightarrow> (error + bool) \<times> (sql, 'd) DB" where
  "customer_ExistsByTaxID S ctx taxID excludeID db =
    exists_query S ctx Customers (Eq ''tax_id'' (CStr taxID)) ''id'' excludeID
      ''failed to check tax ID existence'' db"

section \<open>Vehicle repository\<close>

record VehicleFilter =
  vf_CustomerID :: int
  vf_Search :: string
  vf_ActiveOnly :: bool
  vf_Page :: go_int
  vf_Limit :: go_int

definition scanVehicle :: "row \<Rightarrow> error + int Vehicle" where
  "scanVehicle r =
    (case r of
       [k1, k2, k3, k4, k5, k6, k7, k8, k9, k10, k11, k12, k13, k14] \<Rightarrow>
         andThen (scanInt64 k1) (\<lambda>vID.
         andThen (scanInt64 k2) (\<lambda>vCustomer.
         andThen (scanString k3) (\<lambda>vMake.
         andThen (scanString k4) (\<lambda>vModel.
         andThen (scanInt64 k5) (\<lambda>vYear.
         andThen (scanNullString k6) (\<lambda>vVin.
         andThen (scanNullString k7) (\<lambda>vPlate.
         andThen (scanNullString k8) (\<lambda>vColor.
         andThen (scanNullString k9) (\<lambda>vEngine.
         andThen (scanNullString k10) (\<lambda>vNotes.
         andThen (scanBool k11) (\<lambda>vActive.
         andThen (scanMap k12) (\<lambda>vMeta.
         andThen (scanTime k13) (\<lambda>vCreated.
         andThen (scanTime k14) (\<lambda>vUpdated.
           Inr \<lparr> v_ID = vID, v_CustomerID = vCustomer, v_Make = vMake, v_Model = vModel,
                 v_Year = vYear, v_VIN = StringFromNull vVin,
                 v_LicensePlate = StringFromNull vPlate, v_Color = StringFromNull vColor,
                 v_Engine = StringFromNull vEngine, v_Notes = StringFromNull vNotes,
                 v_IsActive = vActive, v_Metadata = vMeta,
                 v_CreatedAt = vCreated, v_UpdatedAt = vUpdated \<rparr>))))))))))))))
     | _ \<Rightarrow> Inl ErrScan)"

text \<open>The thirteen values of the vehicle \<open>INSERT\<close>.\<close>

definition vehicle_insert_values :: "int Vehicle \<Rightarrow> row" where
  "vehicle_insert_values vehicle =
    [CInt (v_CustomerID vehicle), CStr (v_Make vehicle), CStr (v_Model vehicle),
     CInt (v_Year vehicle),
     valueNullString (NullString (v_VIN vehicle)),
     valueNullString (NullString (v_LicensePlate vehicle)),
     valueNullString (NullString (v_Color vehicle)),
     valueNullString (NullString (v_Engine vehicle)),
     valueNullString (NullString (v_Notes vehicle)),
     CBool (v_IsActive vehicle), valueMap (v_Metadata vehicle),
     CTime (v_CreatedAt vehicle), CTime (v_UpdatedAt vehicle)]"

definition vehicle_Create ::
  "(sql, 'd, sql_result) server \<Rightarrow> Context \<Rightarrow> int Vehicle \<Rightarrow> (sql, 'd) DB
     \<Rightarrow> (error + int Vehicle) \<times> (sql, 'd) DB" where
  "vehicle_Create S ctx vehicle db =
    (case GetTenantIDFromContext ctx of
       Inl err \<Rightarrow> (Inl err, db)
     | Inr tenantID \<Rightarrow>
        (case QueryRowWithTenant S tenantID (Insert VehiclesT (vehicle_insert_values vehicle)) db of
           (res, db1) \<Rightarrow>
             (case Row_Scan scanReturning res of
                Inl err \<Rightarrow> (Inl (Wrapped ''failed to create vehicle'' err), db1)
              | Inr (vID, vCreated, vUpdated) \<Rightarrow>
                  (Inr (vehicle\<lparr>v_ID := vID, v_CreatedAt := vCreated, v_UpdatedAt := vUpdated\<rparr>),
                   db1))))"

text \<open>
  The single-vehicle lookups (\<open>GetByID\<close>, \<open>GetByVIN\<close>, \<open>GetByLicensePlate\<close>) differ in
  their condition and in their messages only.
\<close>

definition vehicle_get ::
  "(sql, 'd, sql_result) server \<Rightarrow> Context \<Rightarrow> cond \<Rightarrow> error \<Rightarrow> string \<Rightarrow> (sql, 'd) DB
     \<Rightarrow> (error + int Vehicle) \<times> (sql, 'd) DB" where
  "vehicle_get S ctx c notFound msg db =
    (case GetTenantIDFromContext ctx of
       Inl err \<Rightarrow> (Inl err, db)
     | Inr tenantID \<Rightarrow>
        (case QueryRowWithTenant S tenantID (Rows VehiclesJoinCustomers [c] [] None None) db of
           (res, db1) \<Rightarrow>
             (case Row_Scan scanVehicle res of
                Inl err \<Rightarrow> (if err = ErrNoRows then Inl notFound else Inl (Wrapped msg err), db1)
              | Inr vehicle \<Rightarrow> (Inr vehicle, db1))))"

definition vehicle_GetByID ::
  "(sql, 'd, sql_result) server \<Rightarrow> Context \<Rightarrow> int \<Rightarrow> (sql, 'd) DB
     \<Rightarrow> (error + int Vehicle) \<times> (sql, 'd) DB" where
  "vehicle_GetByID S ctx vid db =
    vehicle_get S ctx (Eq ''v.id'' (CInt vid)) (ErrEntityNotFound ''vehicle with ID'' (CInt vid))
      ''failed to get vehicle'' db"

definition vehicle_GetByVIN ::
  "(sql, 'd, sql_result) server \<Rightarrow> Context \<Rightarrow> string \<Rightarrow> (sql, 'd) DB
     \<Rightarrow> (error + int Vehicle) \<times> (sql, 'd) DB" where
  "vehicle_GetByVIN S ctx vin db =
    vehicle_get S ctx (Eq ''v.vin'' (CStr vin)) (ErrEntityNotFound ''vehicle with VIN'' (CStr vin))
      ''failed to get vehicle by VIN'' db"

definition vehicle_GetByLicensePlate ::
  "(sql, 'd, sql_result) server \<Rightarrow> Context \<Rightarrow> string \<Rightarrow> (sql, 'd) DB
     \<Rightarrow> (error + int Vehicle) \<times> (sql, 'd) DB" where
  "vehicle_GetByLicensePlate S ctx licensePlate db =
    vehicle_get S ctx (Eq ''v.license_plate'' (CStr licensePlate))
      (ErrEntityNotFound ''vehicle with license plate'' (CStr licensePlate))
      ''failed to get vehicle by license plate'' db"

definition vehicle_Update ::
  "(sql, 'd, sql_result) server \<Rightarrow> Context \<Rightarrow> int Vehicle \<Rightarrow> (sql, 'd) DB
     \<Rightarrow> error option \<times> (sql, 'd) DB" where
  "vehicle_Update S ctx vehicle db =
    (case GetTenantIDFromContext ctx of
       Inl err \<Rightarrow> (Some err, db)
     | Inr tenantID \<Rightarrow>
        (case ExecWithTenant S tenantID
                (Update VehiclesT
                  [CInt (v_ID vehicle), CStr (v_Make vehicle), CStr (v_Model vehicle),
                   CInt (v_Year vehicle),
                   valueNullString (NullString (v_VIN vehicle)),
                   valueNullString (NullString (v_LicensePlate vehicle)),
                   valueNullString (NullString (v_Color vehicle)),
                   valueNullString (NullString (v_Engine vehicle)),
                   valueNullString (NullString (v_Notes vehicle)),
                   CBool (v_IsActive vehicle), valueMap (v_Metadata vehicle),
                   CTime (v_UpdatedAt vehicle)]) db of
           (Inl err, db1) \<Rightarrow> (Some (Wrapped ''failed to update vehicle'' err), db1)
         | (Inr result, db1) \<Rightarrow>
             (if RowsAffected result = 0
              then Some (ErrEntityNotFound ''vehicle with ID'' (CInt (v_ID vehicle)))
              else None, db1)))"

definition vehicle_Delete ::
  "(sql, 'd, sql_result) server \<Rightarrow> Context \<Rightarrow> int \<Rightarrow> (sql, 'd) DB
     \<Rightarrow> error option \<times> (sql, 'd) DB" where
  "vehicle_Delete S ctx vid db =
    (case GetTenantIDFromContext ctx of
       Inl err \<Rightarrow> (Some err, db)
     | Inr tenantID \<Rightarrow>
        (case ExecWithTenant S tenantID (Delete VehiclesT (CInt vid)) db of
           (Inl err, db1) \<Rightarrow> (Some (Wrapped ''failed to delete vehicle'' err), db1)
         | (Inr result, db1) \<Rightarrow>
             (if RowsAffected result = 0
              then Some (ErrEntityNotFound ''vehicle with ID'' (CInt vid))
              else None, db1)))"

text \<open>\<open>List\<close> filters by customer only when \<open>filter.CustomerID > 0\<close>.\<close>

definition vehicle_where :: "VehicleFilter \<Rightarrow> cond list" where
  "vehicle_where flt =
    (if vf_CustomerID flt > 0 then [Eq ''v.customer_id'' (CInt (vf_CustomerID flt))] else [])
    @ (if vf_Search flt \<noteq> [] then
         [AnyOf [ILike (Col ''v.make'') (''%'' @ vf_Search flt @ ''%''),
                 ILike (Col ''v.model'') (''%'' @ vf_Search flt @ ''%''),
                 ILike (Col ''v.vin'') (''%'' @ vf_Search flt @ ''%''),
                 ILike (Col ''v.license_plate'') (''%'' @ vf_Search flt @ ''%'')]]
       else [])
    @ (if vf_ActiveOnly flt then [IsTrue ''v.is_active''] else [])"

definition vehicle_orderBy :: "order_by list" where
  "vehicle_orderBy = [Desc ''v.year'', Asc ''v.make'', Asc ''v.model'']"

definition vehicle_List ::
  "(sql, 'd, sql_result) server \<Rightarrow> Context \<Rightarrow> VehicleFilter \<Rightarrow> (sql, 'd) DB
     \<Rightarrow> (error + int Vehicle list \<times> int) \<times> (sql, 'd) DB" where
  "vehicle_List S ctx flt db =
    (case GetTenantIDFromContext ctx of
       Inl err \<Rightarrow> (Inl err, db)
     | Inr tenantID \<Rightarrow>
        (case QueryRowWithTenant S tenantID (Count VehiclesJoinCustomers (vehicle_where flt)) db of
           (res, db1) \<Rightarrow>
             (case Row_Scan scanCount res of
                Inl err \<Rightarrow> (Inl (Wrapped ''failed to count vehicles'' err), db1)
              | Inr totalCount \<Rightarrow>
                 (let limit = list_limit (vf_Limit flt);
                      offset = list_offset (vf_Page flt) limit
                  in case QueryWithTenant S tenantID
                            (Rows VehiclesJoinCustomers (vehicle_where flt) vehicle_orderBy
                               (Some (sint limit)) (Some (sint offset))) db1 of
                       (Inl err, db2) \<Rightarrow> (Inl (Wrapped ''failed to list vehicles'' err), db2)
                     | (Inr rs, db2) \<Rightarrow>
                        (case scan_rows scanVehicle (result_rows rs) of
                           Inl err \<Rightarrow> (Inl (Wrapped ''failed to scan vehicle'' err), db2)
                         | Inr vehicles \<Rightarrow> (Inr (vehicles, totalCount), db2))))))"

text \<open>\<open>vehicles, _, err := r.List(ctx, filter); return vehicles, err\<close>.\<close>

definition dropTotal :: "(error + 'a list \<times> int) \<times> 's \<Rightarrow> (error + 'a list) \<times> 's" where
  "dropTotal r = (case r of (Inl err, s) \<Rightarrow> (Inl err, s) | (Inr (xs, _), s) \<Rightarrow> (Inr xs, s))"

definition vehicle_ListByCustomer ::
  "(sql, 'd, sql_result) server \<Rightarrow> Context \<Rightarrow> int \<Rightarrow> (sql, 'd) DB
     \<Rightarrow> (error + int Vehicle list) \<times> (sql, 'd) DB" where
  "vehicle_ListByCustomer S ctx customerID db =
    dropTotal (vehicle_List S ctx
      \<lparr> vf_CustomerID = customerID, vf_Search = [], vf_ActiveOnly = False, vf_Page = 0,
        vf_Limit = 100 \<rparr> db)"

definition vehicle_ListActiveByCustomer ::
  "(sql, 'd, sql_result) server \<Rightarrow> Context \<Rightarrow> int \<Rightarrow> (sql, 'd) DB
     \<Rightarrow> (error + int Vehicle list) \<times> (sql, 'd) DB" where
  "vehicle_ListActiveByCustomer S ctx customerID db =
    dropTotal (vehicle_List S ctx
      \<lparr> vf_CustomerID = customerID, vf_Search = [], vf_ActiveOnly = True, vf_Page = 0,
        vf_Limit = 100 \<rparr> db)"

text \<open>The multi-row lookups: one \<open>QueryWithTenant\<close>, then the scan loop.\<close>

definition vehicle_query ::
  "(sql, 'd, sql_result) server \<Rightarrow> Context \<Rightarrow> sql \<Rightarrow> string \<Rightarrow> (sql, 'd) DB
     \<Rightarrow> (error + int Vehicle list) \<times> (sql, 'd) DB" where
  "vehicle_query S ctx q msg db =
    (case GetTenantIDFromContext ctx of
       Inl err \<Rightarrow> (Inl err, db)
     | Inr tenantID \<Rightarrow>
        (case QueryWithTenant S tenantID q db of
           (Inl err, db1) \<Rightarrow> (Inl (Wrapped msg err), db1)
         | (Inr rs, db1) \<Rightarrow>
            (case scan_rows scanVehicle (result_rows rs) of
               Inl err \<Rightarrow> (Inl (Wrapped ''failed to scan vehicle'' err), db1)
             | Inr vehicles \<Rightarrow> (Inr vehicles, db1))))"

definition vehicle_SearchByMakeModel ::
  "(sql, 'd, sql_result) server \<Rightarrow> Context \<Rightarrow> string \<Rightarrow> string \<Rightarrow> int option \<Rightarrow> (sql, 'd) DB
     \<Rightarrow> (error + int Vehicle list) \<times> (sql, 'd) DB" where
  "vehicle_SearchByMakeModel S ctx mk mdl year db =
    vehicle_query S ctx
      (Rows VehiclesJoinCustomers
         ((if mk \<noteq> [] then [ILike (Col ''v.make'') (''%'' @ mk @ ''%'')] else [])
          @ (if mdl \<noteq> [] then [ILike (Col ''v.model'') (''%'' @ mdl @ ''%'')] else [])
          @ (case year of None \<Rightarrow> [] | Some y \<Rightarrow> [Eq ''v.year'' (CInt y)]))
         vehicle_orderBy (Some 50) None)
      ''failed to search vehicles'' db"

definition vehicle_FindCompatibleVehicles ::
  "(sql, 'd, sql_result) server \<Rightarrow> Context \<Rightarrow> string \<Rightarrow> string \<Rightarrow> int \<Rightarrow> int \<Rightarrow> (sql, 'd) DB
     \<Rightarrow> (error + int Vehicle list) \<times> (sql, 'd) DB" where
  "vehicle_FindCompatibleVehicles S ctx mk mdl yearFrom yearTo db =
    vehicle_query S ctx
      (Rows VehiclesJoinCustomers
         [ILike (Col ''v.make'') (''%'' @ mk @ ''%''), ILike (Col ''v.model'') (''%'' @ mdl @ ''%''),
          AtLeast ''v.year'' (CInt yearFrom), AtMost ''v.year'' (CInt yearTo),
          IsTrue ''v.is_active'']
         [Desc ''v.year''] (Some 100) None)
      ''failed to find compatible vehicles'' db"

definition vehicle_ListByMakeModelYear ::
  "(sql, 'd, sql_result) server \<Rightarrow> Context \<Rightarrow> string \<Rightarrow> string \<Rightarrow> int \<Rightarrow> (sql, 'd) DB
     \<Rightarrow> (error + int Vehicle list) \<times> (sql, 'd) DB" where
  "vehicle_ListByMakeModelYear S ctx mk mdl year db =
    vehicle_query S ctx
      (Rows VehiclesJoinCustomers
         [Eq ''v.make'' (CStr mk), Eq ''v.model'' (CStr mdl), Eq ''v.year'' (CInt year)]
         [Desc ''v.created_at''] None None)
      ''failed to list vehicles by make/model/year'' db"

definition vehicle_Count ::
  "(sql, 'd, sql_result) server \<Rightarrow> Context \<Rightarrow> (sql, 'd) DB \<Rightarrow> (error + int) \<times> (sql, 'd) DB" where
  "vehicle_Count S ctx db =
    count_query S ctx VehiclesJoinCustomers [] ''failed to count vehicles'' db"

definition vehicle_CountByCustomer ::
  "(sql, 'd, sql_result) server \<Rightarrow> Context \<Rightarrow> int \<Rightarrow> (sql, 'd) DB
     \<Rightarrow> (error + int) \<times> (sql, 'd) DB" where
  "vehicle_CountByCustomer S ctx customerID db =
    count_query S ctx VehiclesJoinCustomers [Eq ''v.customer_id'' (CInt customerID)]
      ''failed to count vehicles by customer'' db"

definition vehicle_CountActive ::
  "(sql, 'd, sql_result) server \<Rightarrow> Context \<Rightarrow> (sql, 'd) DB \<Rightarrow> (error + int) \<times> (sql, 'd) DB" where
  "vehicle_CountActive S ctx db =
    count_query S ctx VehiclesJoinCustomers [IsTrue ''v.is_active'']
      ''failed to count active vehicles'' db"

definition vehicle_ExistsByVIN ::
  "(sql, 'd, sql_result) server \<Rightarrow> Context \<Rightarrow> string \<Rightarrow> int option \<Rightarrow> (sql, 'd) DB
     \<Rightarrow> (error + bool) \<times> (sql, 'd) DB" where
  "vehicle_ExistsByVIN S ctx vin excludeID db =
    exists_query S ctx VehiclesJoinCustomers (Eq ''v.vin'' (CStr vin)) ''v.id'' excludeID
      ''failed to check VIN existence'' db"

definition vehicle_ExistsByLicensePlate ::
  "(sql, 'd, sql_result) server \<Rightarrow> Context \<Rightarrow> string \<Rightarrow> int option \<Rightarrow> (sql, 'd) DB
     \<Rightarrow> (error + bool) \<times> (sql, 'd) DB" where
  "vehicle_ExistsByLicensePlate S ctx licensePlate excludeID db =
    exists_query S ctx VehiclesJoinCustomers (Eq ''v.license_plate'' (CStr licensePlate)) ''v.id''
      excludeID ''failed to check license plate existence'' db"

text \<open>
  \<open>CreateBatch\<close> returns nil for an empty batch before it looks at the context;
  otherwise it inserts the vehicles one by one inside \<open>TransactionWithTenant\<close> and
  stops at the first failure. The identifiers written back into the vehicles are not
  part of its result.
\<close>

fun batch_inserts ::
  "(sql, 'd, sql_result) server \<Rightarrow> int Vehicle list \<Rightarrow> nat \<Rightarrow> (sql, 'd) DB
     \<Rightarrow> error option outcome \<times> (sql, 'd) DB" where
  "batch_inserts S [] tx db = (Returns None, db)"
| "batch_inserts S (vehicle # vehicles) tx db =
    (case Tx_query S tx (Insert VehiclesT (vehicle_insert_values vehicle)) db of
       (res, db1) \<Rightarrow>
         (case Row_Scan scanReturning res of
            Inl err \<Rightarrow> (Returns (Some (Wrapped ''failed to create vehicle in batch'' err)), db1)
          | Inr _ \<Rightarrow> batch_inserts S vehicles tx db1))"

definition vehicle_CreateBatch ::
  "(sql, 'd, sql_result) server \<Rightarrow> Context \<Rightarrow> int Vehicle list \<Rightarrow> (sql, 'd) DB
     \<Rightarrow> error option outcome \<times> (sql, 'd) DB" where
  "vehicle_CreateBatch S ctx vehicles db =
    (if length vehicles = 0 then (Returns None, db)
     else
      (case GetTenantIDFromContext ctx of
         Inl err \<Rightarrow> (Returns (Some err), db)
       | Inr tenantID \<Rightarrow> TransactionWithTenant S tenantID (batch_inserts S vehicles) db))"

section \<open>Customer note repository\<close>

text \<open>The note repository carries identifiers as strings.\<close>

record CustomerNote =
  n_ID :: string
  n_CustomerID :: string
  n_StaffID :: string
  n_StaffName :: string
  n_Note :: string
  n_Type :: string
  n_CreatedAt :: time

record CustomerNoteFilter =
  nf_CustomerID :: string
  nf_Type :: string
  nf_DateFrom :: "time option"
  nf_DateTo :: "time option"
  nf_Page :: go_int
  nf_Limit :: go_int

definition scanNote :: "row \<Rightarrow> error + CustomerNote" where
  "scanNote r =
    (case r of
       [k1, k2, k3, k4, k5, k6, k7] \<Rightarrow>
         andThen (scanString k1) (\<lambda>vID.
         andThen (scanString k2) (\<lambda>vCustomer.
         andThen (scanString k3) (\<lambda>vStaff.
         andThen (scanString k4) (\<lambda>vStaffName.
         andThen (scanString k5) (\<lambda>vNote.
         andThen (scanString k6) (\<lambda>vType.
         andThen (scanTime k7) (\<lambda>vCreated.
           Inr \<lparr> n_ID = vID, n_CustomerID = vCustomer, n_StaffID = vStaff,
                 n_StaffName = vStaffName, n_Note = vNote, n_Type = vType,
                 n_CreatedAt = vCreated \<rparr>)))))))
     | _ \<Rightarrow> Inl ErrScan)"

text \<open>\<open>RETURNING id, created_at\<close>.\<close>

definition scanNoteReturning :: "row \<Rightarrow> error + string \<times> time" where
  "scanNoteReturning r =
    (case r of
       [k1, k2] \<Rightarrow> andThen (scanString k1) (\<lambda>vID. andThen (scanTime k2) (\<lambda>vCreated. Inr (vID, vCreated)))
     | _ \<Rightarrow> Inl ErrScan)"

definition note_Create ::
  "(sql, 'd, sql_result) server \<Rightarrow> Context \<Rightarrow> CustomerNote \<Rightarrow> (sql, 'd) DB
     \<Rightarrow> (error + CustomerNote) \<times> (sql, 'd) DB" where
  "note_Create S ctx note db =
    (case GetTenantIDFromContext ctx of
       Inl err \<Rightarrow> (Inl err, db)
     | Inr tenantID \<Rightarrow>
        (case QueryRowWithTenant S tenantID
                (Insert CustomerNotesT
                  [CStr (n_CustomerID note), CStr (n_StaffID note), CStr (n_StaffName note),
                   CStr (n_Note note), CStr (n_Type note), CTime (n_CreatedAt note)]) db of
           (res, db1) \<Rightarrow>
             (case Row_Scan scanNoteReturning res of
                Inl err \<Rightarrow> (Inl (Wrapped ''failed to create customer note'' err), db1)
              | Inr (vID, vCreated) \<Rightarrow> (Inr (note\<lparr>n_ID := vID, n_CreatedAt := vCreated\<rparr>), db1))))"

definition note_GetByID ::
  "(sql, 'd, sql_result) server \<Rightarrow> Context \<Rightarrow> string \<Rightarrow> (sql, 'd) DB
     \<Rightarrow> (error + CustomerNote) \<times> (sql, 'd) DB" where
  "note_GetByID S ctx nid db =
    (case GetTenantIDFromContext ctx of
       Inl err \<Rightarrow> (Inl err, db)
     | Inr tenantID \<Rightarrow>
        (case QueryRowWithTenant S tenantID
                (Rows NotesJoinCustomers [Eq ''cn.id'' (CStr nid)] [] None None) db of
           (res, db1) \<Rightarrow>
             (case Row_Scan scanNote res of
                Inl err \<Rightarrow>
                  (if err = ErrNoRows then Inl (ErrEntityNotFound ''customer note with ID'' (CStr nid))
                   else Inl (Wrapped ''failed to get customer note'' err), db1)
              | Inr note \<Rightarrow> (Inr note, db1))))"

definition note_Delete ::
  "(sql, 'd, sql_result) server \<Rightarrow> Context \<Rightarrow> string \<Rightarrow> (sql, 'd) DB
     \<Rightarrow> error option \<times> (sql, 'd) DB" where
  "note_Delete S ctx nid db =
    (case GetTenantIDFromContext ctx of
       Inl err \<Rightarrow> (Some err, db)
     | Inr tenantID \<Rightarrow>
        (case ExecWithTenant S tenantID (Delete CustomerNotesT (CStr nid)) db of
           (Inl err, db1) \<Rightarrow> (Some (Wrapped ''failed to delete customer note'' err), db1)
         | (Inr result, db1) \<Rightarrow>
             (if RowsAffected result = 0
              then Some (ErrEntityNotFound ''customer note with ID'' (CStr nid))
              else None, db1)))"

definition note_where :: "CustomerNoteFilter \<Rightarrow> cond list" where
  "note_where flt =
    (if nf_CustomerID flt \<noteq> [] then [Eq ''cn.customer_id'' (CStr (nf_CustomerID flt))] else [])
    @ (if nf_Type flt \<noteq> [] then [Eq ''cn.type'' (CStr (nf_Type flt))] else [])
    @ (case nf_DateFrom flt of None \<Rightarrow> [] | Some t \<Rightarrow> [AtLeast ''cn.created_at'' (CTime t)])
    @ (case nf_DateTo flt of None \<Rightarrow> [] | Some t \<Rightarrow> [AtMost ''cn.created_at'' (CTime t)])"

definition note_List ::
  "(sql, 'd, sql_result) server \<Rightarrow> Context \<Rightarrow> CustomerNoteFilter \<Rightarrow> (sql, 'd) DB
     \<Rightarrow> (error + CustomerNote list \<times> int) \<times> (sql, 'd) DB" where
  "note_List S ctx flt db =
    (case GetTenantIDFromContext ctx of
       Inl err \<Rightarrow> (Inl err, db)
     | Inr tenantID \<Rightarrow>
        (case QueryRowWithTenant S tenantID (Count NotesJoinCustomers (note_where flt)) db of
           (res, db1) \<Rightarrow>
             (case Row_Scan scanCount res of
                Inl err \<Rightarrow> (Inl (Wrapped ''failed to count customer notes'' err), db1)
              | Inr totalCount \<Rightarrow>
                 (let limit = list_limit (nf_Limit flt);
                      offset = list_offset (nf_Page flt) limit
                  in case QueryWithTenant S tenantID
                            (Rows NotesJoinCustomers (note_where flt) [Desc ''cn.created_at'']
                               (Some (sint limit)) (Some (sint offset))) db1 of
                       (Inl err, db2) \<Rightarrow> (Inl (Wrapped ''failed to list customer notes'' err), db2)
                     | (Inr rs, db2) \<Rightarrow>
                        (case scan_rows scanNote (result_rows rs) of
                           Inl err \<Rightarrow> (Inl (Wrapped ''failed to scan customer note'' err), db2)
                         | Inr notes \<Rightarrow> (Inr (notes, totalCount), db2))))))"

definition note_ListByCustomer ::
  "(sql, 'd, sql_result) server \<Rightarrow> Context \<Rightarrow> string \<Rightarrow> (sql, 'd) DB
     \<Rightarrow> (error + CustomerNote list) \<times> (sql, 'd) DB" where
  "note_ListByCustomer S ctx customerID db =
    dropTotal (note_List S ctx
      \<lparr> nf_CustomerID = customerID, nf_Type = [], nf_DateFrom = None, nf_DateTo = None,
        nf_Page = 0, nf_Limit = 100 \<rparr> db)"

definition note_ListByCustomerAndType ::
  "(sql, 'd, sql_result) server \<Rightarrow> Context \<Rightarrow> string \<Rightarrow> string \<Rightarrow> (sql, 'd) DB
     \<Rightarrow> (error + CustomerNote list) \<times> (sql, 'd) DB" where
  "note_ListByCustomerAndType S ctx customerID noteType db =
    dropTotal (note_List S ctx
      \<lparr> nf_CustomerID = customerID, nf_Type = noteType, nf_DateFrom = None, nf_DateTo = None,
        nf_Page = 0, nf_Limit = 100 \<rparr> db)"

definition note_ListByType ::
  "(sql, 'd, sql_result) server \<Rightarrow> Context \<Rightarrow> string \<Rightarrow> go_int \<Rightarrow> go_int \<Rightarrow> (sql, 'd) DB
     \<Rightarrow> (error + CustomerNote list \<times> int) \<times> (sql, 'd) DB" where
  "note_ListByType S ctx noteType page limit db =
    note_List S ctx
      \<lparr> nf_CustomerID = [], nf_Type = noteType, nf_DateFrom = None, nf_DateTo = None,
        nf_Page = page, nf_Limit = limit \<rparr> db"

definition note_ListByDateRange ::
  "(sql, 'd, sql_result) server \<Rightarrow> Context \<Rightarrow> string \<Rightarrow> time option \<Rightarrow> time option
     \<Rightarrow> (sql, 'd) DB \<Rightarrow> (error + CustomerNote list) \<times> (sql, 'd) DB" where
  "note_ListByDateRange S ctx customerID from to db =
    dropTotal (note_List S ctx
      \<lparr> nf_CustomerID = customerID, nf_Type = [], nf_DateFrom = from, nf_DateTo = to,
        nf_Page = 0, nf_Limit = 1000 \<rparr> db)"

definition note_ListRecentByCustomer ::
  "(sql, 'd, sql_result) server \<Rightarrow> Context \<Rightarrow> string \<Rightarrow> go_int \<Rightarrow> (sql, 'd) DB
     \<Rightarrow> (error + CustomerNote list) \<times> (sql, 'd) DB" where
  "note_ListRecentByCustomer S ctx customerID limit db =
    dropTotal (note_List S ctx
      \<lparr> nf_CustomerID = customerID, nf_Type = [], nf_DateFrom = None, nf_DateTo = None,
        nf_Page = 0, nf_Limit = limit \<rparr> db)"

definition note_ListByStaff ::
  "(sql, 'd, sql_result) server \<Rightarrow> Context \<Rightarrow> string \<Rightarrow> go_int \<Rightarrow> go_int \<Rightarrow> (sql, 'd) DB
     \<Rightarrow> (error + CustomerNote list \<times> int) \<times> (sql, 'd) DB" where
  "note_ListByStaff S ctx staffID page limit db =
    (case GetTenantIDFromContext ctx of
       Inl err \<Rightarrow> (Inl err, db)
     | Inr tenantID \<Rightarrow>
        (case QueryRowWithTenant S tenantID
                (Count NotesJoinCustomers [Eq ''cn.staff_id'' (CStr staffID)]) db of
           (res, db1) \<Rightarrow>
             (case Row_Scan scanCount res of
                Inl err \<Rightarrow> (Inl (Wrapped ''failed to count notes by staff'' err), db1)
              | Inr totalCount \<Rightarrow>
                 (let offset = list_offset page limit
                  in case QueryWithTenant S tenantID
                            (Rows NotesJoinCustomers [Eq ''cn.staff_id'' (CStr staffID)]
                               [Desc ''cn.created_at''] (Some (sint limit)) (Some (sint offset))) db1 of
                       (Inl err, db2) \<Rightarrow> (Inl (Wrapped ''failed to list notes by staff'' err), db2)
                     | (Inr rs, db2) \<Rightarrow>
                        (case scan_rows scanNote (result_rows rs) of
                           Inl err \<Rightarrow> (Inl (Wrapped ''failed to scan customer note'' err), db2)
                         | Inr notes \<Rightarrow> (Inr (notes, totalCount), db2))))))"

definition note_ListRecent ::
  "(sql, 'd, sql_result) server \<Rightarrow> Context \<Rightarrow> go_int \<Rightarrow> (sql, 'd) DB
     \<Rightarrow> (error + CustomerNote list) \<times> (sql, 'd) DB" where
  "note_ListRecent S ctx limit db =
    (case GetTenantIDFromContext ctx of
       Inl err \<Rightarrow> (Inl err, db)
     | Inr tenantID \<Rightarrow>
        (case QueryWithTenant S tenantID
                (Rows NotesJoinCustomers [] [Desc ''cn.created_at''] (Some (sint limit)) None) db of
           (Inl err, db1) \<Rightarrow> (Inl (Wrapped ''failed to list recent notes'' err), db1)
         | (Inr rs, db1) \<Rightarrow>
            (case scan_rows scanNote (result_rows rs) of
               Inl err \<Rightarrow> (Inl (Wrapped ''failed to scan customer note'' err), db1)
             | Inr notes \<Rightarrow> (Inr notes, db1))))"

definition note_Count ::
  "(sql, 'd, sql_result) server \<Rightarrow> Context \<Rightarrow> (sql, 'd) DB \<Rightarrow> (error + int) \<times> (sql, 'd) DB" where
  "note_Count S ctx db =
    count_query S ctx NotesJoinCustomers [] ''failed to count customer notes'' db"

definition note_CountByCustomer ::
  "(sql, 'd, sql_result) server \<Rightarrow> Context \<Rightarrow> string \<Rightarrow> (sql, 'd) DB
     \<Rightarrow> (error + int) \<times> (sql, 'd) DB" where
  "note_CountByCustomer S ctx customerID db =
    count_query S ctx NotesJoinCustomers [Eq ''cn.customer_id'' (CStr customerID)]
      ''failed to count notes by customer'' db"

definition note_CountByType ::
  "(sql, 'd, sql_result) server \<Rightarrow> Context \<Rightarrow> string \<Rightarrow> (sql, 'd) DB
     \<Rightarrow> (error + int) \<times> (sql, 'd) DB" where
  "note_CountByType S ctx noteType db =
    count_query S ctx NotesJoinCustomers [Eq ''cn.type'' (CStr noteType)]
      ''failed to count notes by type'' db"

definition note_CountByStaff ::
  "(sql, 'd, sql_result) server \<Rightarrow> Context \<Rightarrow> string \<Rightarrow> (sql, 'd) DB
     \<Rightarrow> (error + int) \<times> (sql, 'd) DB" where
  "note_CountByStaff S ctx staffID db =
    count_query S ctx NotesJoinCustomers [Eq ''cn.staff_id'' (CStr staffID)]
      ''failed to count notes by staff'' db"

text \<open>The two grouped statements; their rows are \<open>(type, count)\<close> and
  \<open>(staff_id, staff_name, note_count, last_note_created)\<close>.\<close>

definition scanTypeCount :: "row \<Rightarrow> error + string \<times> int" where
  "scanTypeCount r =
    (case r of
       [k1, k2] \<Rightarrow> andThen (scanString k1) (\<lambda>vType. andThen (scanInt64 k2) (\<lambda>vCount. Inr (vType, vCount)))
     | _ \<Rightarrow> Inl ErrScan)"

definition scanStaffActivity :: "row \<Rightarrow> error + string \<times> string \<times> int \<times> time" where
  "scanStaffActivity r =
    (case r of
       [k1, k2, k3, k4] \<Rightarrow>
         andThen (scanString k1) (\<lambda>vStaff.
         andThen (scanString k2) (\<lambda>vName.
         andThen (scanInt64 k3) (\<lambda>vCount.
         andThen (scanTime k4) (\<lambda>vLast. Inr (vStaff, vName, vCount, vLast)))))
     | _ \<Rightarrow> Inl ErrScan)"

definition note_GetNoteTypesCount ::
  "(sql, 'd, sql_result) server \<Rightarrow> Context \<Rightarrow> string \<Rightarrow> (sql, 'd) DB
     \<Rightarrow> (error + (string \<rightharpoonup> int)) \<times> (sql, 'd) DB" where
  "note_GetNoteTypesCount S ctx customerID db =
    (case GetTenantIDFromContext ctx of
       Inl err \<Rightarrow> (Inl err, db)
     | Inr tenantID \<Rightarrow>
        (case QueryWithTenant S tenantID (NoteTypesCount (CStr customerID)) db of
           (Inl err, db1) \<Rightarrow> (Inl (Wrapped ''failed to get note types count'' err), db1)
         | (Inr rs, db1) \<Rightarrow>
            (case scan_rows scanTypeCount (result_rows rs) of
               Inl err \<Rightarrow> (Inl (Wrapped ''failed to scan note type count'' err), db1)
             | Inr pairs \<Rightarrow> (Inr (fold (\<lambda>(k, n) m. m(k \<mapsto> n)) pairs Map.empty), db1))))"

definition note_GetMostActiveStaff ::
  "(sql, 'd, sql_result) server \<Rightarrow> Context \<Rightarrow> go_int \<Rightarrow> (sql, 'd) DB
     \<Rightarrow> (error + (string \<times> string \<times> int \<times> time) list) \<times> (sql, 'd) DB" where
  "note_GetMostActiveStaff S ctx limit db =
    (case GetTenantIDFromContext ctx of
       Inl err \<Rightarrow> (Inl err, db)
     | Inr tenantID \<Rightarrow>
        (case QueryWithTenant S tenantID (MostActiveStaff (sint limit)) db of
           (Inl err, db1) \<Rightarrow> (Inl (Wrapped ''failed to get most active staff'' err), db1)
         | (Inr rs, db1) \<Rightarrow>
            (case scan_rows scanStaffActivity (result_rows rs) of
               Inl err \<Rightarrow> (Inl (Wrapped ''failed to scan staff activity'' err), db1)
             | Inr staff \<Rightarrow> (Inr staff, db1))))"

section \<open>The repository operations as one family\<close>

text \<open>
  Every method of the three repositories with its arguments, and what calling it does to
  the store; of its result only the error (or nil) is kept.
\<close>

datatype repo_call =
    Customer_Create "int Customer"
  | Customer_GetByID int
  | Customer_Update "int Customer"
  | Customer_Delete int
  | Customer_List CustomerFilter
  | Customer_Search CustomerSearchFilter
  | Customer_GetByEmail string
  | Customer_GetByTaxID string
  | Customer_ListByType string go_int go_int
  | Customer_ListActive go_int go_int
  | Customer_ListInactive go_int go_int
  | Customer_Count
  | Customer_CountByType string
  | Customer_CountActive
  | Customer_ExistsByEmail string "int option"
  | Customer_ExistsByTaxID string "int option"
  | Vehicle_Create "int Vehicle"
  | Vehicle_GetByID int
  | Vehicle_Update "int Vehicle"
  | Vehicle_Delete int
  | Vehicle_List VehicleFilter
  | Vehicle_ListByCustomer int
  | Vehicle_GetByVIN string
  | Vehicle_GetByLicensePlate string
  | Vehicle_SearchByMakeModel string string "int option"
  | Vehicle_FindCompatibleVehicles string string int int
  | Vehicle_ListByMakeModelYear string string int
  | Vehicle_Count
  | Vehicle_CountByCustomer int
  | Vehicle_CountActive
  | Vehicle_ExistsByVIN string "int option"
  | Vehicle_ExistsByLicensePlate string "int option"
  | Vehicle_CreateBatch "int Vehicle list"
  | Vehicle_ListActiveByCustomer int
  | Note_Create CustomerNote
  | Note_GetByID string
  | Note_Delete string
  | Note_List CustomerNoteFilter
  | Note_ListByCustomer string
  | Note_ListByCustomerAndType string string
  | Note_ListByStaff string go_int go_int
  | Note_ListByType string go_int go_int
  | Note_ListRecent go_int
  | Note_ListByDateRange string "time option" "time option"
  | Note_ListRecentByCustomer string go_int
  | Note_Count
  | Note_CountByCustomer string
  | Note_CountByType string
  | Note_CountByStaff string
  | Note_GetNoteTypesCount string
  | Note_GetMostActiveStaff go_int

definition errOf :: "(error + 'a) \<times> 's \<Rightarrow> error option outcome \<times> 's" where
  "errOf r = (case r of (Inl err, s) \<Rightarrow> (Returns (Some err), s) | (Inr _, s) \<Rightarrow> (Returns None, s))"

definition errOnly :: "error option \<times> 's \<Rightarrow> error option outcome \<times> 's" where
  "errOnly r = (case r of (e, s) \<Rightarrow> (Returns e, s))"

primrec invoke ::
  "(sql, 'd, sql_result) server \<Rightarrow> Context \<Rightarrow> repo_call \<Rightarrow> (sql, 'd) DB
     \<Rightarrow> error option outcome \<times> (sql, 'd) DB" where
  "invoke S ctx (Customer_Create c) db = errOf (customer_Create S ctx c db)"
| "invoke S ctx (Customer_GetByID i) db = errOf (customer_GetByID S ctx i db)"
| "invoke S ctx (Customer_Update c) db = errOnly (customer_Update S ctx c db)"
| "invoke S ctx (Customer_Delete i) db = errOnly (customer_Delete S ctx i db)"
| "invoke S ctx (Customer_List f) db = errOf (customer_List S ctx f db)"
| "invoke S ctx (Customer_Search f) db = errOf (customer_Search S ctx f db)"
| "invoke S ctx (Customer_GetByEmail e) db = errOf (customer_GetByEmail S ctx e db)"
| "invoke S ctx (Customer_GetByTaxID t) db = errOf (customer_GetByTaxID S ctx t db)"
| "invoke S ctx (Customer_ListByType t p l) db = errOf (customer_ListByType S ctx t p l db)"
| "invoke S ctx (Customer_ListActive p l) db = errOf (customer_ListActive S ctx p l db)"
| "invoke S ctx (Customer_ListInactive p l) db = errOf (customer_ListInactive S ctx p l db)"
| "invoke S ctx Customer_Count db = errOf (customer_Count S ctx db)"
| "invoke S ctx (Customer_CountByType t) db = errOf (customer_CountByType S ctx t db)"
| "invoke S ctx Customer_CountActive db = errOf (customer_CountActive S ctx db)"
| "invoke S ctx (Customer_ExistsByEmail e x) db = errOf (customer_ExistsByEmail S ctx e x db)"
| "invoke S ctx (Customer_ExistsByTaxID t x) db = errOf (customer_ExistsByTaxID S ctx t x db)"
| "invoke S ctx (Vehicle_Create v) db = errOf (vehicle_Create S ctx v db)"
| "invoke S ctx (Vehicle_GetByID i) db = errOf (vehicle_GetByID S ctx i db)"
| "invoke S ctx (Vehicle_Update v) db = errOnly (vehicle_Update S ctx v db)"
| "invoke S ctx (Vehicle_Delete i) db = errOnly (vehicle_Delete S ctx i db)"
| "invoke S ctx (Vehicle_List f) db = errOf (vehicle_List S ctx f db)"
| "invoke S ctx (Vehicle_ListByCustomer i) db = errOf (vehicle_ListByCustomer S ctx i db)"
| "invoke S ctx (Vehicle_GetByVIN v) db = errOf (vehicle_GetByVIN S ctx v db)"
| "invoke S ctx (Vehicle_GetByLicensePlate p) db = errOf (vehicle_GetByLicensePlate S ctx p db)"
| "invoke S ctx (Vehicle_SearchByMakeModel a b y) db = errOf (vehicle_SearchByMakeModel S ctx a b y db)"
| "invoke S ctx (Vehicle_FindCompatibleVehicles a b y z) db =
     errOf (vehicle_FindCompatibleVehicles S ctx a b y z db)"
| "invoke S ctx (Vehicle_ListByMakeModelYear a b y) db = errOf (vehicle_ListByMakeModelYear S ctx a b y db)"
| "invoke S ctx Vehicle_Count db = errOf (vehicle_Count S ctx db)"
| "invoke S ctx (Vehicle_CountByCustomer i) db = errOf (vehicle_CountByCustomer S ctx i db)"
| "invoke S ctx Vehicle_CountActive db = errOf (vehicle_CountActive S ctx db)"
| "invoke S ctx (Vehicle_ExistsByVIN v x) db = errOf (vehicle_ExistsByVIN S ctx v x db)"
| "invoke S ctx (Vehicle_ExistsByLicensePlate p x) db = errOf (vehicle_ExistsByLicensePlate S ctx p x db)"
| "invoke S ctx (Vehicle_CreateBatch vs) db = vehicle_CreateBatch S ctx vs db"
| "invoke S ctx (Vehicle_ListActiveByCustomer i) db = errOf (vehicle_ListActiveByCustomer S ctx i db)"
| "invoke S ctx (Note_Create n) db = errOf (note_Create S ctx n db)"
| "invoke S ctx (Note_GetByID i) db = errOf (note_GetByID S ctx i db)"
| "invoke S ctx (Note_Delete i) db = errOnly (note_Delete S ctx i db)"
| "invoke S ctx (Note_List f) db = errOf (note_List S ctx f db)"
| "invoke S ctx (Note_ListByCustomer i) db = errOf (note_ListByCustomer S ctx i db)"
| "invoke S ctx (Note_ListByCustomerAndType i t) db = errOf (note_ListByCustomerAndType S ctx i t db)"
| "invoke S ctx (Note_ListByStaff s p l) db = errOf (note_ListByStaff S ctx s p l db)"
| "invoke S ctx (Note_ListByType t p l) db = errOf (note_ListByType S ctx t p l db)"
| "invoke S ctx (Note_ListRecent l) db = errOf (note_ListRecent S ctx l db)"
| "invoke S ctx (Note_ListByDateRange i a b) db = errOf (note_ListByDateRange S ctx i a b db)"
| "invoke S ctx (Note_ListRecentByCustomer i l) db = errOf (note_ListRecentByCustomer S ctx i l db)"
| "invoke S ctx Note_Count db = errOf (note_Count S ctx db)"
| "invoke S ctx (Note_CountByCustomer i) db = errOf (note_CountByCustomer S ctx i db)"
| "invoke S ctx (Note_CountByType t) db = errOf (note_CountByType S ctx t db)"
| "invoke S ctx (Note_CountByStaff s) db = errOf (note_CountByStaff S ctx s db)"
| "invoke S ctx (Note_GetNoteTypesCount i) db = errOf (note_GetNoteTypesCount S ctx i db)"
| "invoke S ctx (Note_GetMostActiveStaff l) db = errOf (note_GetMostActiveStaff S ctx l db)"

section \<open>A database server for the customers and vehicles tables\<close>

text \<open>
  Modelled from the spec: the schema and its row-level security policy are not among the
  sources. The spec has the storage engine ``automatically restrict visible rows to the
  current tenant'' through the per-connection directive, and has customers carry the
  owning \<open>tenant_id\<close> while vehicles reach their tenant through the customer they
  reference (every vehicle statement of the repository joins \<open>customers\<close>). So: a
  customer row is visible on a session exactly when its \<open>tenant_id\<close> is the session's
  directive, and nothing is visible on a session without a directive. Foreign keys and
  uniqueness constraints are not modelled. The two text-dependent operators, \<open>ILIKE\<close>
  and the order of values under \<open>ORDER BY\<close>, are parameters, as is the answer to the
  statements on \<open>customer_notes\<close>, a table this server does not hold.
\<close>

record tables =
  customers :: "int Customer list"
  vehicles :: "int Vehicle list"
  customer_seq :: int
  vehicle_seq :: int

record pg_env =
  pg_ilike :: "string \<Rightarrow> string \<Rightarrow> bool"
  pg_le :: "cell \<Rightarrow> cell \<Rightarrow> bool"
  pg_notes :: "string option \<Rightarrow> sql \<Rightarrow> error + sql_result"

subsection \<open>Rows and columns\<close>

definition cellOfString :: "string option \<Rightarrow> cell" where
  "cellOfString s = (case s of None \<Rightarrow> CNull | Some x \<Rightarrow> CStr x)"

definition cellOfTime :: "time option \<Rightarrow> cell" where
  "cellOfTime t = (case t of None \<Rightarrow> CNull | Some x \<Rightarrow> CTime x)"

definition cellOfMap :: "gomap \<Rightarrow> cell" where
  "cellOfMap m = (case m of None \<Rightarrow> CNull | Some kv \<Rightarrow> CJson kv)"

definition customer_columns :: "string list" where
  "customer_columns =
    [''id'', ''tenant_id'', ''first_name'', ''last_name'', ''email'', ''phone'', ''customer_type'',
     ''company_name'', ''tax_id'', ''address'', ''birthday'', ''notes'', ''preferences'',
     ''is_active'', ''created_at'', ''updated_at'']"

definition customer_row :: "int Customer \<Rightarrow> row" where
  "customer_row c =
    [CInt (c_ID c), CStr (c_TenantID c), CStr (c_FirstName c), CStr (c_LastName c),
     cellOfString (c_Email c), cellOfString (c_Phone c), CStr (c_CustomerType c),
     cellOfString (c_CompanyName c), cellOfString (c_TaxID c), cellOfString (c_Address c),
     cellOfTime (c_Birthday c), cellOfString (c_Notes c), cellOfMap (c_Preferences c),
     CBool (c_IsActive c), CTime (c_CreatedAt c), CTime (c_UpdatedAt c)]"

definition vehicle_columns :: "string list" where
  "vehicle_columns =
    [''v.id'', ''v.customer_id'', ''v.make'', ''v.model'', ''v.year'', ''v.vin'',
     ''v.license_plate'', ''v.color'', ''v.engine'', ''v.notes'', ''v.is_active'', ''v.metadata'',
     ''v.created_at'', ''v.updated_at'']"

definition vehicle_row :: "int Vehicle \<Rightarrow> row" where
  "vehicle_row v =
    [CInt (v_ID v), CInt (v_CustomerID v), CStr (v_Make v), CStr (v_Model v), CInt (v_Year v),
     cellOfString (v_VIN v), cellOfString (v_LicensePlate v), cellOfString (v_Color v),
     cellOfString (v_Engine v), cellOfString (v_Notes v), CBool (v_IsActive v),
     cellOfMap (v_Metadata v), CTime (v_CreatedAt v), CTime (v_UpdatedAt v)]"

text \<open>
  The value of a column in a row; a name that is not a column of the relation reads as
  \<open>NULL\<close> (the repositories name existing columns only).
\<close>

definition col :: "string list \<Rightarrow> row \<Rightarrow> string \<Rightarrow> cell" where
  "col names r n = (case map_of (zip names r) n of None \<Rightarrow> CNull | Some c \<Rightarrow> c)"

fun expr_value :: "string list \<Rightarrow> row \<Rightarrow> expr \<Rightarrow> cell" where
  "expr_value names r (Col n) = col names r n"
| "expr_value names r FullName =
    (case (col names r ''first_name'', col names r ''last_name'') of
       (CStr a, CStr b) \<Rightarrow> CStr (a @ '' '' @ b)
     | _ \<Rightarrow> CNull)"

definition at_least :: "cell \<Rightarrow> cell \<Rightarrow> bool" where
  "at_least a b =
    (case (a, b) of (CInt x, CInt y) \<Rightarrow> y \<le> x | (CTime x, CTime y) \<Rightarrow> y \<le> x | _ \<Rightarrow> False)"

text \<open>A condition holds of a row; a comparison with \<open>NULL\<close> never does.\<close>

fun holds :: "pg_env \<Rightarrow> string list \<Rightarrow> row \<Rightarrow> cond \<Rightarrow> bool" where
  "holds E names r (Eq n v) = (v \<noteq> CNull \<and> col names r n = v)"
| "holds E names r (NotEq n v) = (v \<noteq> CNull \<and> col names r n \<noteq> CNull \<and> col names r n \<noteq> v)"
| "holds E names r (ILike e p) =
    (case expr_value names r e of CStr s \<Rightarrow> pg_ilike E p s | _ \<Rightarrow> False)"
| "holds E names r (IsTrue n) = (col names r n = CBool True)"
| "holds E names r (IsFalse n) = (col names r n = CBool False)"
| "holds E names r (AtLeast n v) = at_least (col names r n) v"
| "holds E names r (AtMost n v) = at_least v (col names r n)"
| "holds E names r (AnyOf cs) = list_ex (holds E names r) cs"

subsection \<open>Ordering and paging\<close>

fun sort_key :: "pg_env \<Rightarrow> string list \<Rightarrow> order_by \<Rightarrow> row \<Rightarrow> cell" where
  "sort_key E names (Asc n) r = col names r n"
| "sort_key E names (Desc n) r = col names r n"
| "sort_key E names (SearchRank pat q) r =
    CInt (if holds E names r (AnyOf [ILike (Col ''first_name'') pat, ILike (Col ''last_name'') pat])
          then 1
          else if col names r ''email'' = CStr q then 2
          else if col names r ''phone'' = CStr q then 3
          else 4)"

fun rows_le :: "pg_env \<Rightarrow> string list \<Rightarrow> order_by list \<Rightarrow> row \<Rightarrow> row \<Rightarrow> bool" where
  "rows_le E names [] a b = True"
| "rows_le E names (ob # obs) a b =
    (if sort_key E names ob a = sort_key E names ob b then rows_le E names obs a b
     else (case ob of
             Desc _ \<Rightarrow> pg_le E (sort_key E names ob b) (sort_key E names ob a)
           | _ \<Rightarrow> pg_le E (sort_key E names ob a) (sort_key E names ob b)))"

fun insert_by :: "('a \<Rightarrow> 'a \<Rightarrow> bool) \<Rightarrow> 'a \<Rightarrow> 'a list \<Rightarrow> 'a list" where
  "insert_by le x [] = [x]"
| "insert_by le x (y # ys) = (if le x y then x # y # ys else y # insert_by le x ys)"

definition sort_by :: "('a \<Rightarrow> 'a \<Rightarrow> bool) \<Rightarrow> 'a list \<Rightarrow> 'a list" where
  "sort_by le xs = foldr (insert_by le) xs []"

text \<open>\<open>LIMIT l OFFSET k\<close>, each optional; the server refuses negative values.\<close>

definition paged :: "int option \<Rightarrow> int option \<Rightarrow> 'a list \<Rightarrow> 'a list" where
  "paged lim off xs =
    (let ys = (case off of None \<Rightarrow> xs | Some k \<Rightarrow> drop (nat k) xs)
     in case lim of None \<Rightarrow> ys | Some l \<Rightarrow> take (nat l) ys)"

definition negative :: "int option \<Rightarrow> bool" where
  "negative n = (case n of None \<Rightarrow> False | Some k \<Rightarrow> k < 0)"

subsection \<open>Visibility\<close>

definition visible_customers :: "string option \<Rightarrow> tables \<Rightarrow> int Customer list" where
  "visible_customers dir d =
    (case dir of None \<Rightarrow> [] | Some t \<Rightarrow> filter (\<lambda>c. c_TenantID c = t) (customers d))"

text \<open>\<open>vehicles v INNER JOIN customers c ON v.customer_id = c.id\<close>: one row per pair.\<close>

definition joined_vehicles :: "string option \<Rightarrow> tables \<Rightarrow> int Vehicle list" where
  "joined_vehicles dir d =
    concat (map (\<lambda>v. map (\<lambda>c. v) (filter (\<lambda>c. c_ID c = v_CustomerID v) (visible_customers dir d)))
                (vehicles d))"

text \<open>
  The customers (vehicles) a \<open>WHERE\<close> clause selects on a session, in table order, and
  the same under an \<open>ORDER BY\<close>.
\<close>

definition matching_customers ::
  "pg_env \<Rightarrow> string option \<Rightarrow> cond list \<Rightarrow> tables \<Rightarrow> int Customer list" where
  "matching_customers E dir w d =
    filter (\<lambda>c. list_all (holds E customer_columns (customer_row c)) w) (visible_customers dir d)"

definition matching_vehicles ::
  "pg_env \<Rightarrow> string option \<Rightarrow> cond list \<Rightarrow> tables \<Rightarrow> int Vehicle list" where
  "matching_vehicles E dir w d =
    filter (\<lambda>v. list_all (holds E vehicle_columns (vehicle_row v)) w) (joined_vehicles dir d)"

definition selected_customers ::
  "pg_env \<Rightarrow> string option \<Rightarrow> cond list \<Rightarrow> order_by list \<Rightarrow> tables \<Rightarrow> int Customer list" where
  "selected_customers E dir w obs d =
    sort_by (\<lambda>a b. rows_le E customer_columns obs (customer_row a) (customer_row b))
      (matching_customers E dir w d)"

definition selected_vehicles ::
  "pg_env \<Rightarrow> string option \<Rightarrow> cond list \<Rightarrow> order_by list \<Rightarrow> tables \<Rightarrow> int Vehicle list" where
  "selected_vehicles E dir w obs d =
    sort_by (\<lambda>a b. rows_le E vehicle_columns obs (vehicle_row a) (vehicle_row b))
      (matching_vehicles E dir w d)"

subsection \<open>Writes\<close>

definition asInt :: "cell \<Rightarrow> int option" where
  "asInt c = (case c of CInt n \<Rightarrow> Some n | _ \<Rightarrow> None)"

definition asStr :: "cell \<Rightarrow> string option" where
  "asStr c = (case c of CStr s \<Rightarrow> Some s | _ \<Rightarrow> None)"

definition asBool :: "cell \<Rightarrow> bool option" where
  "asBool c = (case c of CBool b \<Rightarrow> Some b | _ \<Rightarrow> None)"

definition asTime :: "cell \<Rightarrow> time option" where
  "asTime c = (case c of CTime t \<Rightarrow> Some t | _ \<Rightarrow> None)"

definition asOptStr :: "cell \<Rightarrow> string option option" where
  "asOptStr c = (case c of CNull \<Rightarrow> Some None | CStr s \<Rightarrow> Some (Some s) | _ \<Rightarrow> None)"

definition asOptTime :: "cell \<Rightarrow> time option option" where
  "asOptTime c = (case c of CNull \<Rightarrow> Some None | CTime t \<Rightarrow> Some (Some t) | _ \<Rightarrow> None)"

definition asMap :: "cell \<Rightarrow> gomap option" where
  "asMap c = (case c of CNull \<Rightarrow> Some None | CJson m \<Rightarrow> Some (Some m) | _ \<Rightarrow> None)"

definition ErrInput :: error where
  "ErrInput = ErrDriver ''pq: invalid input for the statement''"

definition ErrPolicy :: error where
  "ErrPolicy = ErrDriver ''pq: new row violates row-level security policy''"

text \<open>The customer an \<open>INSERT INTO customers\<close> with these fifteen values creates.\<close>

definition new_customer :: "int \<Rightarrow> row \<Rightarrow> int Customer option" where
  "new_customer newID vals =
    (case vals of
       [k1, k2, k3, k4, k5, k6, k7, k8, k9, k10, k11, k12, k13, k14, k15] \<Rightarrow>
         Option.bind (asStr k1) (\<lambda>vTenant.
         Option.bind (asStr k2) (\<lambda>vFirst.
         Option.bind (asStr k3) (\<lambda>vLast.
         Option.bind (asOptStr k4) (\<lambda>vEmail.
         Option.bind (asOptStr k5) (\<lambda>vPhone.
         Option.bind (asStr k6) (\<lambda>vType.
         Option.bind (asOptStr k7) (\<lambda>vCompany.
         Option.bind (asOptStr k8) (\<lambda>vTax.
         Option.bind (asOptStr k9) (\<lambda>vAddress.
         Option.bind (asOptTime k10) (\<lambda>vBirthday.
         Option.bind (asOptStr k11) (\<lambda>vNotes.
         Option.bind (asMap k12) (\<lambda>vPrefs.
         Option.bind (asBool k13) (\<lambda>vActive.
         Option.bind (asTime k14) (\<lambda>vCreated.
         Option.bind (asTime k15) (\<lambda>vUpdated.
           Some \<lparr> c_ID = newID, c_TenantID = vTenant, c_FirstName = vFirst, c_LastName = vLast,
                  c_Email = vEmail, c_Phone = vPhone, c_CustomerType = vType,
                  c_CompanyName = vCompany, c_TaxID = vTax, c_Address = vAddress,
                  c_Birthday = vBirthday, c_Notes = vNotes, c_Preferences = vPrefs,
                  c_IsActive = vActive, c_CreatedAt = vCreated,
                  c_UpdatedAt = vUpdated \<rparr>)))))))))))))))
     | _ \<Rightarrow> None)"

text \<open>The \<open>SET\<close> list of \<open>UPDATE customers\<close>, from \<open>$2 .. $14\<close>.\<close>

definition customer_assign :: "row \<Rightarrow> (int Customer \<Rightarrow> int Customer) option" where
  "customer_assign vals =
    (case vals of
       [k1, k2, k3, k4, k5, k6, k7, k8, k9, k10, k11, k12, k13, k14] \<Rightarrow>
         Option.bind (asStr k2) (\<lambda>vFirst.
         Option.bind (asStr k3) (\<lambda>vLast.
         Option.bind (asOptStr k4) (\<lambda>vEmail.
         Option.bind (asOptStr k5) (\<lambda>vPhone.
         Option.bind (asStr k6) (\<lambda>vType.
         Option.bind (asOptStr k7) (\<lambda>vCompany.
         Option.bind (asOptStr k8) (\<lambda>vTax.
         Option.bind (asOptStr k9) (\<lambda>vAddress.
         Option.bind (asOptTime k10) (\<lambda>vBirthday.
         Option.bind (asOptStr k11) (\<lambda>vNotes.
         Option.bind (asMap k12) (\<lambda>vPrefs.
         Option.bind (asBool k13) (\<lambda>vActive.
         Option.bind (asTime k14) (\<lambda>vUpdated.
           Some (\<lambda>c. c\<lparr> c_FirstName := vFirst, c_LastName := vLast, c_Email := vEmail,
                          c_Phone := vPhone, c_CustomerType := vType, c_CompanyName := vCompany,
                          c_TaxID := vTax, c_Address := vAddress, c_Birthday := vBirthday,
                          c_Notes := vNotes, c_Preferences := vPrefs, c_IsActive := vActive,
                          c_UpdatedAt := vUpdated \<rparr>))))))))))))))
     | _ \<Rightarrow> None)"

definition new_vehicle :: "int \<Rightarrow> row \<Rightarrow> int Vehicle option" where
  "new_vehicle newID vals =
    (case vals of
       [k1, k2, k3, k4, k5, k6, k7, k8, k9, k10, k11, k12, k13] \<Rightarrow>
         Option.bind (asInt k1) (\<lambda>vCustomer.
         Option.bind (asStr k2) (\<lambda>vMake.
         Option.bind (asStr k3) (\<lambda>vModel.
         Option.bind (asInt k4) (\<lambda>vYear.
         Option.bind (asOptStr k5) (\<lambda>vVin.
         Option.bind (asOptStr k6) (\<lambda>vPlate.
         Option.bind (asOptStr k7) (\<lambda>vColor.
         Option.bind (asOptStr k8) (\<lambda>vEngine.
         Option.bind (asOptStr k9) (\<lambda>vNotes.
         Option.bind (asBool k10) (\<lambda>vActive.
         Option.bind (asMap k11) (\<lambda>vMeta.
         Option.bind (asTime k12) (\<lambda>vCreated.
         Option.bind (asTime k13) (\<lambda>vUpdated.
           Some \<lparr> v_ID = newID, v_CustomerID = vCustomer, v_Make = vMake, v_Model = vModel,
                  v_Year = vYear, v_VIN = vVin, v_LicensePlate = vPlate, v_Color = vColor,
                  v_Engine = vEngine, v_Notes = vNotes, v_IsActive = vActive,
                  v_Metadata = vMeta, v_CreatedAt = vCreated,
                  v_UpdatedAt = vUpdated \<rparr>)))))))))))))
     | _ \<Rightarrow> None)"

definition vehicle_assign :: "row \<Rightarrow> (int Vehicle \<Rightarrow> int Vehicle) option" where
  "vehicle_assign vals =
    (case vals of
       [k1, k2, k3, k4, k5, k6, k7, k8, k9, k10, k11, k12] \<Rightarrow>
         Option.bind (asStr k2) (\<lambda>vMake.
         Option.bind (asStr k3) (\<lambda>vModel.
         Option.bind (asInt k4) (\<lambda>vYear.
         Option.bind (asOptStr k5) (\<lambda>vVin.
         Option.bind (asOptStr k6) (\<lambda>vPlate.
         Option.bind (asOptStr k7) (\<lambda>vColor.
         Option.bind (asOptStr k8) (\<lambda>vEngine.
         Option.bind (asOptStr k9) (\<lambda>vNotes.
         Option.bind (asBool k10) (\<lambda>vActive.
         Option.bind (asMap k11) (\<lambda>vMeta.
         Option.bind (asTime k12) (\<lambda>vUpdated.
           Some (\<lambda>v. v\<lparr> v_Make := vMake, v_Model := vModel, v_Year := vYear, v_VIN := vVin,
                          v_LicensePlate := vPlate, v_Color := vColor, v_Engine := vEngine,
                          v_Notes := vNotes, v_IsActive := vActive, v_Metadata := vMeta,
                          v_UpdatedAt := vUpdated \<rparr>))))))))))))
     | _ \<Rightarrow> None)"

text \<open>The rows a statement with \<open>WHERE id = $1\<close> reaches on a session.\<close>

definition customer_target :: "string option \<Rightarrow> cell \<Rightarrow> int Customer \<Rightarrow> bool" where
  "customer_target dir k c = (Some (c_TenantID c) = dir \<and> CInt (c_ID c) = k)"

definition vehicle_target :: "string option \<Rightarrow> tables \<Rightarrow> cell \<Rightarrow> int Vehicle \<Rightarrow> bool" where
  "vehicle_target dir d k v =
    (CInt (v_ID v) = k \<and> list_ex (\<lambda>c. c_ID c = v_CustomerID v) (visible_customers dir d))"

subsection \<open>Answers\<close>

definition pg_insert :: "string option \<Rightarrow> table \<Rightarrow> row \<Rightarrow> tables \<Rightarrow> (error + sql_result) \<times> tables" where
  "pg_insert dir t vals d =
    (case t of
       CustomersT \<Rightarrow>
         (case new_customer (customer_seq d) vals of
            None \<Rightarrow> (Inl ErrInput, d)
          | Some c \<Rightarrow>
              if Some (c_TenantID c) \<noteq> dir then (Inl ErrPolicy, d)
              else (Inr (RowSet [[CInt (c_ID c), CTime (c_CreatedAt c), CTime (c_UpdatedAt c)]]),
                    d\<lparr>customers := customers d @ [c], customer_seq := customer_seq d + 1\<rparr>))
     | VehiclesT \<Rightarrow>
         (case new_vehicle (vehicle_seq d) vals of
            None \<Rightarrow> (Inl ErrInput, d)
          | Some v \<Rightarrow>
              (Inr (RowSet [[CInt (v_ID v), CTime (v_CreatedAt v), CTime (v_UpdatedAt v)]]),
               d\<lparr>vehicles := vehicles d @ [v], vehicle_seq := vehicle_seq d + 1\<rparr>))
     | CustomerNotesT \<Rightarrow> (Inl ErrInput, d))"

definition pg_update :: "string option \<Rightarrow> table \<Rightarrow> row \<Rightarrow> tables \<Rightarrow> (error + sql_result) \<times> tables" where
  "pg_update dir t vals d =
    (case t of
       CustomersT \<Rightarrow>
         (case customer_assign vals of
            None \<Rightarrow> (Inl ErrInput, d)
          | Some assign \<Rightarrow>
              (Inr (Affected (int (length (filter (customer_target dir (hd vals)) (customers d))))),
               d\<lparr>customers :=
                    map (\<lambda>c. if customer_target dir (hd vals) c then assign c else c) (customers d)\<rparr>))
     | VehiclesT \<Rightarrow>
         (case vehicle_assign vals of
            None \<Rightarrow> (Inl ErrInput, d)
          | Some assign \<Rightarrow>
              (Inr (Affected (int (length (filter (vehicle_target dir d (hd vals)) (vehicles d))))),
               d\<lparr>vehicles :=
                    map (\<lambda>v. if vehicle_target dir d (hd vals) v then assign v else v) (vehicles d)\<rparr>))
     | CustomerNotesT \<Rightarrow> (Inl ErrInput, d))"

definition pg_delete :: "string option \<Rightarrow> table \<Rightarrow> cell \<Rightarrow> tables \<Rightarrow> (error + sql_result) \<times> tables" where
  "pg_delete dir t k d =
    (case t of
       CustomersT \<Rightarrow>
         (Inr (Affected (int (length (filter (customer_target dir k) (customers d))))),
          d\<lparr>customers := filter (\<lambda>c. \<not> customer_target dir k c) (customers d)\<rparr>)
     | VehiclesT \<Rightarrow>
         (Inr (Affected (int (length (filter (vehicle_target dir d k) (vehicles d))))),
          d\<lparr>vehicles := filter (\<lambda>v. \<not> vehicle_target dir d k v) (vehicles d)\<rparr>)
     | CustomerNotesT \<Rightarrow> (Inl ErrInput, d))"

definition on_notes :: "sql \<Rightarrow> bool" where
  "on_notes q =
    (case q of
       Count rel _ \<Rightarrow> rel = NotesJoinCustomers
     | Rows rel _ _ _ _ \<Rightarrow> rel = NotesJoinCustomers
     | Insert t _ \<Rightarrow> t = CustomerNotesT
     | Update t _ \<Rightarrow> t = CustomerNotesT
     | Delete t _ \<Rightarrow> t = CustomerNotesT
     | NoteTypesCount _ \<Rightarrow> True
     | MostActiveStaff _ \<Rightarrow> True)"

definition pg_count :: "pg_env \<Rightarrow> string option \<Rightarrow> relation \<Rightarrow> cond list \<Rightarrow> tables \<Rightarrow> int" where
  "pg_count E dir rel w d =
    (case rel of
       Customers \<Rightarrow> int (length (matching_customers E dir w d))
     | VehiclesJoinCustomers \<Rightarrow> int (length (matching_vehicles E dir w d))
     | NotesJoinCustomers \<Rightarrow> 0)"

definition pg_rows ::
  "pg_env \<Rightarrow> string option \<Rightarrow> relation \<Rightarrow> cond list \<Rightarrow> order_by list \<Rightarrow> int option
     \<Rightarrow> int option \<Rightarrow> tables \<Rightarrow> row list" where
  "pg_rows E dir rel w obs lim off d =
    (case rel of
       Customers \<Rightarrow> map customer_row (paged lim off (selected_customers E dir w obs d))
     | VehiclesJoinCustomers \<Rightarrow> map vehicle_row (paged lim off (selected_vehicles E dir w obs d))
     | NotesJoinCustomers \<Rightarrow> [])"

definition pg_answer :: "pg_env \<Rightarrow> string option \<Rightarrow> sql \<Rightarrow> tables \<Rightarrow> (error + sql_result) \<times> tables" where
  "pg_answer E dir q d =
    (if on_notes q then (pg_notes E dir q, d)
     else
      (case q of
         Count rel w \<Rightarrow> (Inr (RowSet [[CInt (pg_count E dir rel w d)]]), d)
       | Rows rel w obs lim off \<Rightarrow>
           if negative lim \<or> negative off
           then (Inl (ErrDriver ''pq: LIMIT and OFFSET must not be negative''), d)
           else (Inr (RowSet (pg_rows E dir rel w obs lim off d)), d)
       | Insert t vals \<Rightarrow> pg_insert dir t vals d
       | Update t vals \<Rightarrow> pg_update dir t vals d
       | Delete t k \<Rightarrow> pg_delete dir t k d
       | _ \<Rightarrow> (Inl ErrInput, d)))"

definition pg :: "pg_env \<Rightarrow> (sql, tables, sql_result) server" where
  "pg E = \<lparr> set_error = (\<lambda>t. None), answer = pg_answer E, begin_error = None,
           commit_error = None \<rparr>"

section \<open>Customer service\<close>


section \<open>One connection\<close>




section \<open>Concrete stores and values for the examples\<close>

text \<open>
  A server over a counter of accepted statements, which answers every statement with the
  directive it ran under; one that accepts the directive and one that refuses it.
\<close>

definition echo_server :: "(string, nat, string option) server" where
  "echo_server =
    \<lparr> set_error = (\<lambda>t. None),
      answer = (\<lambda>dir q d. (Inr dir, Suc d)),
      begin_error = None,
      commit_error = None \<rparr>"

definition refusing_server :: "(string, nat, string option) server" where
  "refusing_server = echo_server\<lparr>set_error := (\<lambda>t. Some (ErrDriver ''connection reset''))\<rparr>"

text \<open>
  A pool of two connections; connection \<open>1\<close> was last used for tenant \<open>tenant-b\<close>. The
  pool hands connection \<open>0\<close> to the next checkout and connection \<open>1\<close> to the one after
  (another request took connection \<open>0\<close> in between).
\<close>

definition two_conn_db :: "(string, nat) DB" where
  "two_conn_db =
    \<lparr> directive = (\<lambda>i. if i = 1 then Some ''tenant-b'' else None),
      handout = [0, 1],
      rows = 0,
      open_tx = (\<lambda>i. None),
      journal = [] \<rparr>"

definition one_conn_db :: "(string, nat) DB" where
  "one_conn_db = two_conn_db\<lparr>handout := []\<rparr>"

definition panicking_fn ::
  "nat \<Rightarrow> (string, nat) DB \<Rightarrow> error option outcome \<times> (string, nat) DB" where
  "panicking_fn tx db = (Panics ''boom'', snd (Tx_query echo_server tx ''INSERT'' db))"

definition failing_fn ::
  "nat \<Rightarrow> (string, nat) DB \<Rightarrow> error option outcome \<times> (string, nat) DB" where
  "failing_fn tx db =
    (Returns (Some (ErrDriver ''constraint'')), snd (Tx_query echo_server tx ''INSERT'' db))"

definition inserting_fn ::
  "nat \<Rightarrow> (string, nat) DB \<Rightarrow> error option outcome \<times> (string, nat) DB" where
  "inserting_fn tx db = (Returns None, snd (Tx_query echo_server tx ''INSERT'' db))"

definition example_vehicle :: "string option \<Rightarrow> int Vehicle" where
  "example_vehicle vin =
    \<lparr> v_ID = 7, v_CustomerID = 3, v_Make = ''Honda'', v_Model = ''Accord'', v_Year = 2003,
      v_VIN = vin, v_LicensePlate = None, v_Color = None, v_Engine = None, v_Notes = None,
      v_IsActive = True, v_Metadata = None, v_CreatedAt = 100, v_UpdatedAt = 100 \<rparr>"

text \<open>
  A server whose \<open>ILIKE\<close> matches everything, which orders integers and instants by
  value, and which refuses the statements on \<open>customer_notes\<close>; a database with
  twenty-five customers of \<open>tenant-a\<close> and one of \<open>tenant-b\<close>, where customer 1 owns an
  active vehicle and customer 2 an inactive one; a pool of one connection; a context that
  carries \<open>tenant-a\<close>.
\<close>

definition plain_env :: pg_env where
  "plain_env = \<lparr> pg_ilike = (\<lambda>p s. True), pg_le = (\<lambda>a b. at_least b a),
                 pg_notes = (\<lambda>dir q. Inl ErrInput) \<rparr>"

definition sample_customer :: "string \<Rightarrow> int \<Rightarrow> int Customer" where
  "sample_customer tenant n =
    \<lparr> c_ID = n, c_TenantID = tenant, c_FirstName = ''Ana'', c_LastName = ''Diaz'',
      c_Email = None, c_Phone = None, c_CustomerType = ''individual'', c_CompanyName = None,
      c_TaxID = None, c_Address = None, c_Birthday = None, c_Notes = None,
      c_Preferences = Some Map.empty, c_IsActive = True, c_CreatedAt = n, c_UpdatedAt = n \<rparr>"

definition sample_tables :: tables where
  "sample_tables =
    \<lparr> customers =
        map (sample_customer ''tenant-a'')
          [1, 2, 3, 4, 5, 6, 7, 8, 9, 10, 11, 12, 13, 14, 15, 16, 17, 18, 19, 20, 21, 22, 23, 24, 25]
        @ [sample_customer ''tenant-b'' 26],
      vehicles =
        [(example_vehicle None)\<lparr>v_ID := 1, v_CustomerID := 1\<rparr>,
         (example_vehicle None)\<lparr>v_ID := 2, v_CustomerID := 2, v_IsActive := False\<rparr>],
      customer_seq = 27,
      vehicle_seq = 3 \<rparr>"

definition sample_db :: "(sql, tables) DB" where
  "sample_db =
    \<lparr> directive = (\<lambda>i. None), handout = [], rows = sample_tables, open_tx = (\<lambda>i. None),
      journal = [] \<rparr>"




chapter \<open>Properties\<close>

section \<open>Round trip of the nullable helpers\<close>

text \<open>
  C9. Converting an optional value to its nullable wrapper and back gives the value
  back: an absent value stays absent (it does not become the empty string or zero), a
  present value stays present and equal. This holds for the string, time and int64
  helper pairs.
\<close>

theorem nullable_round_trip:
  "StringFromNull (NullString s) = s
   \<and> TimeFromNull (NullTime t) = t
   \<and> Int64FromNull (NullInt64 i) = i
   \<and> StringFromNull (NullString None) \<noteq> Some []
   \<and> TimeFromNull (NullTime None) \<noteq> Some 0
   \<and> Int64FromNull (NullInt64 None) \<noteq> Some 0"
  by (simp add: NullString_def StringFromNull_def NullTime_def TimeFromNull_def
      NullInt64_def Int64FromNull_def split: option.split)

section \<open>Partial updates\<close>

text \<open>Each guarded assignment is a single field update of the entity.\<close>

lemma customer_steps:
  fixes r :: "'i Customer"
  shows
  "when_set p1 (\<lambda>x c. c\<lparr>c_FirstName := x\<rparr>) r =
     r\<lparr>c_FirstName := (case p1 of None \<Rightarrow> c_FirstName r | Some x \<Rightarrow> x)\<rparr>"
  "when_set p1 (\<lambda>x c. c\<lparr>c_LastName := x\<rparr>) r =
     r\<lparr>c_LastName := (case p1 of None \<Rightarrow> c_LastName r | Some x \<Rightarrow> x)\<rparr>"
  "when_set p1 (\<lambda>x c. c\<lparr>c_CustomerType := x\<rparr>) r =
     r\<lparr>c_CustomerType := (case p1 of None \<Rightarrow> c_CustomerType r | Some x \<Rightarrow> x)\<rparr>"
  "when_set p2 (\<lambda>x c. c\<lparr>c_Email := Some x\<rparr>) r =
     r\<lparr>c_Email := (case p2 of None \<Rightarrow> c_Email r | Some x \<Rightarrow> Some x)\<rparr>"
  "when_set p2 (\<lambda>x c. c\<lparr>c_Phone := Some x\<rparr>) r =
     r\<lparr>c_Phone := (case p2 of None \<Rightarrow> c_Phone r | Some x \<Rightarrow> Some x)\<rparr>"
  "when_set p2 (\<lambda>x c. c\<lparr>c_CompanyName := Some x\<rparr>) r =
     r\<lparr>c_CompanyName := (case p2 of None \<Rightarrow> c_CompanyName r | Some x \<Rightarrow> Some x)\<rparr>"
  "when_set p2 (\<lambda>x c. c\<lparr>c_TaxID := Some x\<rparr>) r =
     r\<lparr>c_TaxID := (case p2 of None \<Rightarrow> c_TaxID r | Some x \<Rightarrow> Some x)\<rparr>"
  "when_set p2 (\<lambda>x c. c\<lparr>c_Address := Some x\<rparr>) r =
     r\<lparr>c_Address := (case p2 of None \<Rightarrow> c_Address r | Some x \<Rightarrow> Some x)\<rparr>"
  "when_set p2 (\<lambda>x c. c\<lparr>c_Notes := Some x\<rparr>) r =
     r\<lparr>c_Notes := (case p2 of None \<Rightarrow> c_Notes r | Some x \<Rightarrow> Some x)\<rparr>"
  "when_set p3 (\<lambda>x c. c\<lparr>c_Birthday := Some x\<rparr>) r =
     r\<lparr>c_Birthday := (case p3 of None \<Rightarrow> c_Birthday r | Some x \<Rightarrow> Some x)\<rparr>"
  "when_set p4 (\<lambda>x c. c\<lparr>c_Preferences := Some x\<rparr>) r =
     r\<lparr>c_Preferences := (case p4 of None \<Rightarrow> c_Preferences r | Some x \<Rightarrow> Some x)\<rparr>"
  "when_set p5 (\<lambda>x c. c\<lparr>c_IsActive := x\<rparr>) r =
     r\<lparr>c_IsActive := (case p5 of None \<Rightarrow> c_IsActive r | Some x \<Rightarrow> x)\<rparr>"
  by (simp_all add: when_set_def split: option.split)

lemma vehicle_steps:
  fixes r :: "'i Vehicle"
  shows
  "when_set p1 (\<lambda>x v. v\<lparr>v_Make := x\<rparr>) r =
     r\<lparr>v_Make := (case p1 of None \<Rightarrow> v_Make r | Some x \<Rightarrow> x)\<rparr>"
  "when_set p1 (\<lambda>x v. v\<lparr>v_Model := x\<rparr>) r =
     r\<lparr>v_Model := (case p1 of None \<Rightarrow> v_Model r | Some x \<Rightarrow> x)\<rparr>"
  "when_set p6 (\<lambda>x v. v\<lparr>v_Year := x\<rparr>) r =
     r\<lparr>v_Year := (case p6 of None \<Rightarrow> v_Year r | Some x \<Rightarrow> x)\<rparr>"
  "when_set p2 (\<lambda>x v. v\<lparr>v_VIN := Some x\<rparr>) r =
     r\<lparr>v_VIN := (case p2 of None \<Rightarrow> v_VIN r | Some x \<Rightarrow> Some x)\<rparr>"
  "when_set p2 (\<lambda>x v. v\<lparr>v_LicensePlate := Some x\<rparr>) r =
     r\<lparr>v_LicensePlate := (case p2 of None \<Rightarrow> v_LicensePlate r | Some x \<Rightarrow> Some x)\<rparr>"
  "when_set p2 (\<lambda>x v. v\<lparr>v_Color := Some x\<rparr>) r =
     r\<lparr>v_Color := (case p2 of None \<Rightarrow> v_Color r | Some x \<Rightarrow> Some x)\<rparr>"
  "when_set p2 (\<lambda>x v. v\<lparr>v_Engine := Some x\<rparr>) r =
     r\<lparr>v_Engine := (case p2 of None \<Rightarrow> v_Engine r | Some x \<Rightarrow> Some x)\<rparr>"
  "when_set p2 (\<lambda>x v. v\<lparr>v_Notes := Some x\<rparr>) r =
     r\<lparr>v_Notes := (case p2 of None \<Rightarrow> v_Notes r | Some x \<Rightarrow> Some x)\<rparr>"
  "when_set p5 (\<lambda>x v. v\<lparr>v_IsActive := x\<rparr>) r =
     r\<lparr>v_IsActive := (case p5 of None \<Rightarrow> v_IsActive r | Some x \<Rightarrow> x)\<rparr>"
  "when_set p4 (\<lambda>x v. v\<lparr>v_Metadata := Some x\<rparr>) r =
     r\<lparr>v_Metadata := (case p4 of None \<Rightarrow> v_Metadata r | Some x \<Rightarrow> Some x)\<rparr>"
  by (simp_all add: when_set_def split: option.split)

lemma Customer_UpdateFromUpdate_fields:
  fixes c :: "'i Customer"
  shows "Customer_UpdateFromUpdate now c u =
    c\<lparr> c_FirstName := (case cu_FirstName u of None \<Rightarrow> c_FirstName c | Some x \<Rightarrow> x),
       c_LastName := (case cu_LastName u of None \<Rightarrow> c_LastName c | Some x \<Rightarrow> x),
       c_Email := (case cu_Email u of None \<Rightarrow> c_Email c | Some x \<Rightarrow> Some x),
       c_Phone := (case cu_Phone u of None \<Rightarrow> c_Phone c | Some x \<Rightarrow> Some x),
       c_CustomerType := (case cu_CustomerType u of None \<Rightarrow> c_CustomerType c | Some x \<Rightarrow> x),
       c_CompanyName := (case cu_CompanyName u of None \<Rightarrow> c_CompanyName c | Some x \<Rightarrow> Some x),
       c_TaxID := (case cu_TaxID u of None \<Rightarrow> c_TaxID c | Some x \<Rightarrow> Some x),
       c_Address := (case cu_Address u of None \<Rightarrow> c_Address c | Some x \<Rightarrow> Some x),
       c_Birthday := (case cu_Birthday u of None \<Rightarrow> c_Birthday c | Some x \<Rightarrow> Some x),
       c_Notes := (case cu_Notes u of None \<Rightarrow> c_Notes c | Some x \<Rightarrow> Some x),
       c_Preferences := (case cu_Preferences u of None \<Rightarrow> c_Preferences c | Some m \<Rightarrow> Some m),
       c_IsActive := (case cu_IsActive u of None \<Rightarrow> c_IsActive c | Some b \<Rightarrow> b),
       c_UpdatedAt := now \<rparr>"
  by (simp add: Customer_UpdateFromUpdate_def customer_steps cong: option.case_cong)

lemma Vehicle_UpdateFromUpdate_fields:
  fixes v :: "'i Vehicle"
  shows "Vehicle_UpdateFromUpdate now v w =
    v\<lparr> v_Make := (case vu_Make w of None \<Rightarrow> v_Make v | Some x \<Rightarrow> x),
       v_Model := (case vu_Model w of None \<Rightarrow> v_Model v | Some x \<Rightarrow> x),
       v_Year := (case vu_Year w of None \<Rightarrow> v_Year v | Some x \<Rightarrow> x),
       v_VIN := (case vu_VIN w of None \<Rightarrow> v_VIN v | Some x \<Rightarrow> Some x),
       v_LicensePlate := (case vu_LicensePlate w of None \<Rightarrow> v_LicensePlate v | Some x \<Rightarrow> Some x),
       v_Color := (case vu_Color w of None \<Rightarrow> v_Color v | Some x \<Rightarrow> Some x),
       v_Engine := (case vu_Engine w of None \<Rightarrow> v_Engine v | Some x \<Rightarrow> Some x),
       v_Notes := (case vu_Notes w of None \<Rightarrow> v_Notes v | Some x \<Rightarrow> Some x),
       v_IsActive := (case vu_IsActive w of None \<Rightarrow> v_IsActive v | Some b \<Rightarrow> b),
       v_Metadata := (case vu_Metadata w of None \<Rightarrow> v_Metadata v | Some m \<Rightarrow> Some m),
       v_UpdatedAt := now \<rparr>"
  by (simp add: Vehicle_UpdateFromUpdate_def vehicle_steps cong: option.case_cong)

text \<open>
  C6. Applying a partial update to a customer or to a vehicle gives the entity in which
  every field whose update value is present holds that value, every field whose update
  value is absent holds what it held before, \<open>updated_at\<close> is the current time, and
  nothing else (identifier, tenant, owner, \<open>created_at\<close>) has changed.
\<close>

theorem partial_update_frame:
  fixes c :: "'i Customer" and v :: "'k Vehicle"
  shows
  "Customer_UpdateFromUpdate now c u =
    c\<lparr> c_FirstName := (case cu_FirstName u of None \<Rightarrow> c_FirstName c | Some x \<Rightarrow> x),
       c_LastName := (case cu_LastName u of None \<Rightarrow> c_LastName c | Some x \<Rightarrow> x),
       c_Email := (case cu_Email u of None \<Rightarrow> c_Email c | Some x \<Rightarrow> Some x),
       c_Phone := (case cu_Phone u of None \<Rightarrow> c_Phone c | Some x \<Rightarrow> Some x),
       c_CustomerType := (case cu_CustomerType u of None \<Rightarrow> c_CustomerType c | Some x \<Rightarrow> x),
       c_CompanyName := (case cu_CompanyName u of None \<Rightarrow> c_CompanyName c | Some x \<Rightarrow> Some x),
       c_TaxID := (case cu_TaxID u of None \<Rightarrow> c_TaxID c | Some x \<Rightarrow> Some x),
       c_Address := (case cu_Address u of None \<Rightarrow> c_Address c | Some x \<Rightarrow> Some x),
       c_Birthday := (case cu_Birthday u of None \<Rightarrow> c_Birthday c | Some x \<Rightarrow> Some x),
       c_Notes := (case cu_Notes u of None \<Rightarrow> c_Notes c | Some x \<Rightarrow> Some x),
       c_Preferences := (case cu_Preferences u of None \<Rightarrow> c_Preferences c | Some m \<Rightarrow> Some m),
       c_IsActive := (case cu_IsActive u of None \<Rightarrow> c_IsActive c | Some b \<Rightarrow> b),
       c_UpdatedAt := now \<rparr>
   \<and> Vehicle_UpdateFromUpdate now v w =
    v\<lparr> v_Make := (case vu_Make w of None \<Rightarrow> v_Make v | Some x \<Rightarrow> x),
       v_Model := (case vu_Model w of None \<Rightarrow> v_Model v | Some x \<Rightarrow> x),
       v_Year := (case vu_Year w of None \<Rightarrow> v_Year v | Some x \<Rightarrow> x),
       v_VIN := (case vu_VIN w of None \<Rightarrow> v_VIN v | Some x \<Rightarrow> Some x),
       v_LicensePlate := (case vu_LicensePlate w of None \<Rightarrow> v_LicensePlate v | Some x \<Rightarrow> Some x),
       v_Color := (case vu_Color w of None \<Rightarrow> v_Color v | Some x \<Rightarrow> Some x),
       v_Engine := (case vu_Engine w of None \<Rightarrow> v_Engine v | Some x \<Rightarrow> Some x),
       v_Notes := (case vu_Notes w of None \<Rightarrow> v_Notes v | Some x \<Rightarrow> Some x),
       v_IsActive := (case vu_IsActive w of None \<Rightarrow> v_IsActive v | Some b \<Rightarrow> b),
       v_Metadata := (case vu_Metadata w of None \<Rightarrow> v_Metadata v | Some m \<Rightarrow> Some m),
       v_UpdatedAt := now \<rparr>"
  using Customer_UpdateFromUpdate_fields [of now c u] Vehicle_UpdateFromUpdate_fields [of now v w]
  by (rule conjI)

text \<open>
  The spec's example: an update that carries only an email leaves the names and every
  other field as they were, and stamps \<open>updated_at\<close>.
\<close>

lemma update_only_email:
  fixes c :: "'i Customer"
  assumes "cu_FirstName u = None" "cu_LastName u = None" "cu_Email u = Some e"
    "cu_Phone u = None" "cu_CustomerType u = None" "cu_CompanyName u = None"
    "cu_TaxID u = None" "cu_Address u = None" "cu_Birthday u = None" "cu_Notes u = None"
    "cu_Preferences u = None" "cu_IsActive u = None"
  shows "Customer_UpdateFromUpdate now c u = c\<lparr>c_Email := Some e, c_UpdatedAt := now\<rparr>"
  by (simp add: Customer_UpdateFromUpdate_fields assms)

section \<open>VIN validation\<close>

text \<open>
  C7. \<open>ValidateVIN\<close>, which the services run on the create and on the update path,
  accepts an absent or empty VIN, rejects a non-empty VIN whose length is not 17,
  rejects a VIN of length 17 that contains \<open>I\<close>, \<open>O\<close> or \<open>Q\<close>, and accepts every other
  VIN of length 17.
\<close>

theorem vin_validation:
  fixes v :: "'i Vehicle"
  shows
  "(v_VIN v = None \<or> v_VIN v = Some [] \<longrightarrow> ValidateVIN v = None)
   \<and> (\<forall>vin. v_VIN v = Some vin \<and> vin \<noteq> [] \<and> length vin \<noteq> 17 \<longrightarrow>
         ValidateVIN v = Some (ValidationError ''vin'' ''VIN debe tener exactamente 17 caracteres''))
   \<and> (\<forall>vin. v_VIN v = Some vin \<and> length vin = 17
           \<and> (CHR ''I'' \<in> set vin \<or> CHR ''O'' \<in> set vin \<or> CHR ''Q'' \<in> set vin) \<longrightarrow>
         ValidateVIN v = Some (ValidationError ''vin'' ''VIN no puede contener las letras I, O o Q''))
   \<and> (\<forall>vin. v_VIN v = Some vin \<and> length vin = 17
           \<and> CHR ''I'' \<notin> set vin \<and> CHR ''O'' \<notin> set vin \<and> CHR ''Q'' \<notin> set vin \<longrightarrow>
         ValidateVIN v = None)"
  by (auto simp: ValidateVIN_def prohibitedChars_def list_ex_iff)

theorem vin_validation_witness:
  "ValidateVIN (example_vehicle None) = None
   \<and> ValidateVIN (example_vehicle (Some [])) = None
   \<and> ValidateVIN (example_vehicle (Some ''1HGCM82633A00435'')) =
       Some (ValidationError ''vin'' ''VIN debe tener exactamente 17 caracteres'')
   \<and> ValidateVIN (example_vehicle (Some ''1HGCM82633AO04352'')) =
       Some (ValidationError ''vin'' ''VIN no puede contener las letras I, O o Q'')
   \<and> ValidateVIN (example_vehicle (Some ''1HGCM82633A004352'')) = None"
  using vin_validation [of "example_vehicle None"]
    vin_validation [of "example_vehicle (Some [])"]
    vin_validation [of "example_vehicle (Some ''1HGCM82633A00435'')"]
    vin_validation [of "example_vehicle (Some ''1HGCM82633AO04352'')"]
    vin_validation [of "example_vehicle (Some ''1HGCM82633A004352'')"]
  by (simp add: example_vehicle_def)

section \<open>Decoding of update requests\<close>



section \<open>Session-scoped store\<close>

lemma checkout_eqD:
  assumes "checkout db = (i, db1)"
  shows "directive db1 = directive db" "rows db1 = rows db" "open_tx db1 = open_tx db"
    "journal db1 = journal db"
  using assms by (auto simp: checkout_def split: list.splits)

lemma SetTenantID_fails:
  assumes "set_error S t = Some e" and "checkout db = (i, db1)"
  shows "fst (SetTenantID S t db) = Some e"
    and "journal (snd (SetTenantID S t db)) = journal db @ [OnPool i (directive db i) (SetTenant t)]"
    and "rows (snd (SetTenantID S t db)) = rows db"
    and "directive (snd (SetTenantID S t db)) = directive db"
    and "open_tx (snd (SetTenantID S t db)) = open_tx db"
    and "handout (snd (SetTenantID S t db)) = handout db1"
  using assms checkout_eqD [OF assms(2)]
  by (simp_all add: SetTenantID_def session_set_def Let_def record_event_def)

lemma SetTenantID_succeeds:
  assumes "set_error S t = None" and "checkout db = (i, db1)"
  shows "fst (SetTenantID S t db) = None"
    and "journal (snd (SetTenantID S t db)) = journal db @ [OnPool i (directive db i) (SetTenant t)]"
    and "rows (snd (SetTenantID S t db)) = rows db"
    and "directive (snd (SetTenantID S t db)) = (directive db)(i := Some t)"
    and "open_tx (snd (SetTenantID S t db)) = open_tx db"
    and "handout (snd (SetTenantID S t db)) = handout db1"
  using assms checkout_eqD [OF assms(2)]
  by (simp_all add: SetTenantID_def session_set_def Let_def record_event_def)

lemma pooled_query:
  assumes "checkout db = (j, db2)"
  shows "fst (session_query S j q db2) = fst (answer S (directive db j) q (rows db))"
    and "journal (snd (session_query S j q db2)) = journal db @ [OnPool j (directive db j) (Query q)]"
    and "rows (snd (session_query S j q db2)) = snd (answer S (directive db j) q (rows db))"
  using checkout_eqD [OF assms]
  by (simp_all add: session_query_def Let_def record_event_def split: prod.split)

text \<open>
  Every call of the three pooled wrappers sends the directive first: nothing is cached
  between calls.
\<close>

lemma directive_sent_on_every_call:
  assumes "checkout db = (i, db1)"
  shows "\<exists>rest. journal (snd (ExecWithTenant S t q db)) =
           journal db @ OnPool i (directive db i) (SetTenant t) # rest"
    and "\<exists>rest. journal (snd (QueryWithTenant S t q db)) =
           journal db @ OnPool i (directive db i) (SetTenant t) # rest"
    and "\<exists>rest. journal (snd (QueryRowWithTenant S t q db)) =
           journal db @ OnPool i (directive db i) (SetTenant t) # rest"
proof -
  obtain r db2 where s: "SetTenantID S t db = (r, db2)" by (cases "SetTenantID S t db")
  obtain j db3 where c: "checkout db2 = (j, db3)" by (cases "checkout db2")
  have j2: "journal db2 = journal db @ [OnPool i (directive db i) (SetTenant t)]"
    using SetTenantID_fails(2) [OF _ assms, of S t] SetTenantID_succeeds(2) [OF _ assms, of S t] s
    by (cases "set_error S t") auto
  have q: "journal (snd (session_query S j q db3)) =
      journal db @ [OnPool i (directive db i) (SetTenant t), OnPool j (directive db2 j) (Query q)]"
    using pooled_query(2) [OF c, of S q] j2 by simp
  show "\<exists>rest. journal (snd (ExecWithTenant S t q db)) =
           journal db @ OnPool i (directive db i) (SetTenant t) # rest"
    using s c j2 q by (cases r) (simp_all add: ExecWithTenant_def ExecContext_def)
  show "\<exists>rest. journal (snd (QueryWithTenant S t q db)) =
           journal db @ OnPool i (directive db i) (SetTenant t) # rest"
    using s c j2 q by (cases r) (simp_all add: QueryWithTenant_def QueryContext_def)
  show "\<exists>rest. journal (snd (QueryRowWithTenant S t q db)) =
           journal db @ OnPool i (directive db i) (SetTenant t) # rest"
    using s c j2 q by (simp add: QueryRowWithTenant_def QueryRowContext_def)
qed

text \<open>
  When the pool hands the query the connection the directive went to, the query runs
  under the caller's tenant.
\<close>

lemma same_connection_is_scoped:
  assumes "set_error S t = None" and "checkout db = (i, db1)" and "checkout db1 = (i, db2)"
  shows "journal (snd (ExecWithTenant S t q db)) =
           journal db @ [OnPool i (directive db i) (SetTenant t), OnPool i (Some t) (Query q)]"
proof -
  obtain r db' where s: "SetTenantID S t db = (r, db')" by (cases "SetTenantID S t db")
  have r: "r = None" and j: "journal db' = journal db @ [OnPool i (directive db i) (SetTenant t)]"
    and d: "directive db' = (directive db)(i := Some t)" and h: "handout db' = handout db1"
    using SetTenantID_succeeds [OF assms(1,2)] s by simp_all
  obtain db3 where c: "checkout db' = (i, db3)"
    using assms(3) h by (auto simp: checkout_def split: list.splits)
  show ?thesis
    using s r c pooled_query(2) [OF c, of S q] j d by (simp add: ExecWithTenant_def ExecContext_def)
qed

text \<open>
  C1. The directive and the query are two separate checkouts from the pool. With two
  connections, where the pool hands connection 0 to the directive and connection 1 (last
  scoped to \<open>tenant-b\<close>) to the query, the query of a call for \<open>tenant-a\<close> runs under
  \<open>tenant-b\<close>'s directive.
\<close>

theorem exec_with_tenant_other_connection:
  "journal (snd (ExecWithTenant echo_server ''tenant-a'' ''SELECT'' two_conn_db)) =
     [OnPool 0 None (SetTenant ''tenant-a''), OnPool 1 (Some ''tenant-b'') (Query ''SELECT'')]
   \<and> fst (ExecWithTenant echo_server ''tenant-a'' ''SELECT'' two_conn_db) = Inr (Some ''tenant-b'')
   \<and> journal (snd (QueryWithTenant echo_server ''tenant-a'' ''SELECT'' two_conn_db)) =
     [OnPool 0 None (SetTenant ''tenant-a''), OnPool 1 (Some ''tenant-b'') (Query ''SELECT'')]
   \<and> journal (snd (QueryRowWithTenant echo_server ''tenant-a'' ''SELECT'' two_conn_db)) =
     [OnPool 0 None (SetTenant ''tenant-a''), OnPool 1 (Some ''tenant-b'') (Query ''SELECT'')]"
  by (simp add: ExecWithTenant_def QueryWithTenant_def QueryRowWithTenant_def SetTenantID_def
      ExecContext_def QueryContext_def QueryRowContext_def session_set_def session_query_def
      checkout_def record_event_def echo_server_def two_conn_db_def Let_def)

lemma checkout_handout:
  assumes "handout a = handout b"
  shows "fst (checkout a) = fst (checkout b)"
  using assms by (simp add: checkout_def split: list.split)

lemma BeginTx_ok:
  assumes "begin_error S = None" and "checkout db = (tx, db0)"
  shows "fst (BeginTx S db) = Inr tx"
    and "journal (snd (BeginTx S db)) = journal db @ [TxBegin tx]"
    and "rows (snd (BeginTx S db)) = rows db"
    and "directive (snd (BeginTx S db)) = directive db"
    and "open_tx (snd (BeginTx S db)) = (open_tx db)(tx := Some (rows db, directive db tx))"
  using assms checkout_eqD [OF assms(2)]
  by (simp_all add: BeginTx_def record_event_def)

lemma BeginTxWithTenant_ok:
  assumes "begin_error S = None" and "set_error S t = None" and "checkout db = (tx, db0)"
  shows "fst (BeginTxWithTenant S t db) = Inr tx"
    and "journal (snd (BeginTxWithTenant S t db)) =
          journal db @ [TxBegin tx, InTx tx (directive db tx) (SetTenant t)]"
    and "rows (snd (BeginTxWithTenant S t db)) = rows db"
    and "directive (snd (BeginTxWithTenant S t db)) = directive db"
    and "open_tx (snd (BeginTxWithTenant S t db)) = (open_tx db)(tx := Some (rows db, Some t))"
proof -
  obtain db1 where b: "BeginTx S db = (Inr tx, db1)"
    using BeginTx_ok(1) [OF assms(1,3)] by (cases "BeginTx S db") auto
  have f: "journal db1 = journal db @ [TxBegin tx]" "rows db1 = rows db"
    "directive db1 = directive db"
    "open_tx db1 = (open_tx db)(tx := Some (rows db, directive db tx))"
    using BeginTx_ok(2-5) [OF assms(1,3)] b by simp_all
  show "fst (BeginTxWithTenant S t db) = Inr tx"
    using b f assms(2) by (simp add: BeginTxWithTenant_def Tx_set_def Let_def)
  show "journal (snd (BeginTxWithTenant S t db)) =
          journal db @ [TxBegin tx, InTx tx (directive db tx) (SetTenant t)]"
    using b f assms(2) by (simp add: BeginTxWithTenant_def Tx_set_def Let_def record_event_def)
  show "rows (snd (BeginTxWithTenant S t db)) = rows db"
    using b f assms(2) by (simp add: BeginTxWithTenant_def Tx_set_def Let_def record_event_def)
  show "directive (snd (BeginTxWithTenant S t db)) = directive db"
    using b f assms(2) by (simp add: BeginTxWithTenant_def Tx_set_def Let_def record_event_def)
  show "open_tx (snd (BeginTxWithTenant S t db)) = (open_tx db)(tx := Some (rows db, Some t))"
    using b f assms(2) by (simp add: BeginTxWithTenant_def Tx_set_def Let_def record_event_def)
qed

lemma BeginTxWithTenant_directive_fails:
  assumes "begin_error S = None" and "set_error S t = Some e" and "checkout db = (tx, db0)"
  shows "fst (BeginTxWithTenant S t db) = Inl (Wrapped ''failed to set tenant ID'' e)"
    and "journal (snd (BeginTxWithTenant S t db)) =
          journal db @ [TxBegin tx, InTx tx (directive db tx) (SetTenant t), TxRollback tx]"
    and "rows (snd (BeginTxWithTenant S t db)) = rows db"
    and "open_tx (snd (BeginTxWithTenant S t db)) tx = None"
proof -
  obtain db1 where b: "BeginTx S db = (Inr tx, db1)"
    using BeginTx_ok(1) [OF assms(1,3)] by (cases "BeginTx S db") auto
  have f: "journal db1 = journal db @ [TxBegin tx]" "rows db1 = rows db"
    "open_tx db1 = (open_tx db)(tx := Some (rows db, directive db tx))"
    using BeginTx_ok(2,3,5) [OF assms(1,3)] b by simp_all
  show "fst (BeginTxWithTenant S t db) = Inl (Wrapped ''failed to set tenant ID'' e)"
    using b f assms(2) by (simp add: BeginTxWithTenant_def Tx_set_def Let_def)
  show "journal (snd (BeginTxWithTenant S t db)) =
          journal db @ [TxBegin tx, InTx tx (directive db tx) (SetTenant t), TxRollback tx]"
    using b f assms(2)
    by (simp add: BeginTxWithTenant_def Tx_set_def Tx_Rollback_def Let_def record_event_def)
  show "rows (snd (BeginTxWithTenant S t db)) = rows db"
    using b f assms(2)
    by (simp add: BeginTxWithTenant_def Tx_set_def Tx_Rollback_def Let_def record_event_def)
  show "open_tx (snd (BeginTxWithTenant S t db)) tx = None"
    using b f assms(2)
    by (simp add: BeginTxWithTenant_def Tx_set_def Tx_Rollback_def Let_def record_event_def)
qed

text \<open>
  C3, as the code has it. When the server refuses the directive, \<open>ExecWithTenant\<close> and
  \<open>QueryWithTenant\<close> return its error having sent nothing else, and
  \<open>BeginTxWithTenant\<close>/\<open>TransactionWithTenant\<close> roll the transaction back and return
  the wrapped error without calling the function; \<open>QueryRowWithTenant\<close> sends its
  query all the same.
\<close>

theorem directive_failure_aborts:
  assumes "set_error S t = Some e" and "begin_error S = None"
    and "checkout db = (i, db1)" and "checkout db1 = (j, db2)"
  shows
  "fst (ExecWithTenant S t q db) = Inl e
   \<and> journal (snd (ExecWithTenant S t q db)) = journal db @ [OnPool i (directive db i) (SetTenant t)]
   \<and> rows (snd (ExecWithTenant S t q db)) = rows db
   \<and> fst (QueryWithTenant S t q db) = Inl e
   \<and> journal (snd (QueryWithTenant S t q db)) = journal db @ [OnPool i (directive db i) (SetTenant t)]
   \<and> rows (snd (QueryWithTenant S t q db)) = rows db
   \<and> fst (BeginTxWithTenant S t db) = Inl (Wrapped ''failed to set tenant ID'' e)
   \<and> fst (TransactionWithTenant S t fn db) = Returns (Some (Wrapped ''failed to set tenant ID'' e))
   \<and> journal (snd (TransactionWithTenant S t fn db)) =
       journal db @ [TxBegin i, InTx i (directive db i) (SetTenant t), TxRollback i]
   \<and> rows (snd (TransactionWithTenant S t fn db)) = rows db
   \<and> open_tx (snd (TransactionWithTenant S t fn db)) i = None
   \<and> journal (snd (QueryRowWithTenant S t q db)) =
       journal db @ [OnPool i (directive db i) (SetTenant t), OnPool j (directive db j) (Query q)]"
proof -
  obtain db' where s: "SetTenantID S t db = (Some e, db')"
    using SetTenantID_fails(1) [OF assms(1,3)] by (cases "SetTenantID S t db") auto
  have f: "journal db' = journal db @ [OnPool i (directive db i) (SetTenant t)]"
    "rows db' = rows db" "directive db' = directive db" "handout db' = handout db1"
    using SetTenantID_fails(2,3,4,6) [OF assms(1,3)] s by simp_all
  obtain db3 where c: "checkout db' = (j, db3)"
    using checkout_handout [OF f(4)] assms(4) by (cases "checkout db'") auto
  obtain err dbt where b: "BeginTxWithTenant S t db = (Inl err, dbt)"
    using BeginTxWithTenant_directive_fails(1) [OF assms(2,1,3)]
    by (cases "BeginTxWithTenant S t db") auto
  have g: "err = Wrapped ''failed to set tenant ID'' e"
    "journal dbt = journal db @ [TxBegin i, InTx i (directive db i) (SetTenant t), TxRollback i]"
    "rows dbt = rows db" "open_tx dbt i = None"
    using BeginTxWithTenant_directive_fails [OF assms(2,1,3)] b by simp_all
  have e1: "fst (ExecWithTenant S t q db) = Inl e
      \<and> journal (snd (ExecWithTenant S t q db)) = journal db @ [OnPool i (directive db i) (SetTenant t)]
      \<and> rows (snd (ExecWithTenant S t q db)) = rows db"
    using s f by (simp add: ExecWithTenant_def)
  have e2: "fst (QueryWithTenant S t q db) = Inl e
      \<and> journal (snd (QueryWithTenant S t q db)) = journal db @ [OnPool i (directive db i) (SetTenant t)]
      \<and> rows (snd (QueryWithTenant S t q db)) = rows db"
    using s f by (simp add: QueryWithTenant_def)
  have e3: "fst (BeginTxWithTenant S t db) = Inl (Wrapped ''failed to set tenant ID'' e)"
    using b g by simp
  have e4: "fst (TransactionWithTenant S t fn db) = Returns (Some (Wrapped ''failed to set tenant ID'' e))
      \<and> journal (snd (TransactionWithTenant S t fn db)) =
          journal db @ [TxBegin i, InTx i (directive db i) (SetTenant t), TxRollback i]
      \<and> rows (snd (TransactionWithTenant S t fn db)) = rows db
      \<and> open_tx (snd (TransactionWithTenant S t fn db)) i = None"
    using b g by (simp add: TransactionWithTenant_def)
  have e5: "journal (snd (QueryRowWithTenant S t q db)) =
       journal db @ [OnPool i (directive db i) (SetTenant t), OnPool j (directive db j) (Query q)]"
    using s c pooled_query(2) [OF c, of S q] f by (simp add: QueryRowWithTenant_def QueryRowContext_def)
  show ?thesis using e1 e2 e3 e4 e5 by simp
qed

theorem directive_failure_aborts_witness:
  "fst (ExecWithTenant refusing_server ''tenant-a'' ''UPDATE'' one_conn_db) =
     Inl (ErrDriver ''connection reset'')
   \<and> journal (snd (ExecWithTenant refusing_server ''tenant-a'' ''UPDATE'' one_conn_db)) =
     [OnPool 0 None (SetTenant ''tenant-a'')]
   \<and> journal (snd (TransactionWithTenant refusing_server ''tenant-a'' inserting_fn one_conn_db)) =
     [TxBegin 0, InTx 0 None (SetTenant ''tenant-a''), TxRollback 0]
   \<and> rows (snd (TransactionWithTenant refusing_server ''tenant-a'' inserting_fn one_conn_db)) = 0"
  using directive_failure_aborts [of refusing_server "''tenant-a''" "ErrDriver ''connection reset''"
      one_conn_db 0 one_conn_db 0 one_conn_db "''UPDATE''" inserting_fn]
  by (simp add: refusing_server_def echo_server_def one_conn_db_def two_conn_db_def checkout_def)

text \<open>
  The single-row wrapper at a server that refuses the directive: the query is sent, on a
  session that carries no directive.
\<close>

theorem query_row_ignores_directive_failure:
  "set_error refusing_server ''tenant-a'' = Some (ErrDriver ''connection reset'')
   \<and> journal (snd (QueryRowWithTenant refusing_server ''tenant-a'' ''SELECT'' one_conn_db)) =
       [OnPool 0 None (SetTenant ''tenant-a''), OnPool 0 None (Query ''SELECT'')]
   \<and> fst (QueryRowWithTenant refusing_server ''tenant-a'' ''SELECT'' one_conn_db) = Inr None"
  by (simp add: QueryRowWithTenant_def SetTenantID_def QueryRowContext_def session_set_def
      session_query_def checkout_def record_event_def refusing_server_def echo_server_def
      one_conn_db_def two_conn_db_def Let_def)

lemma Tx_Rollback_open:
  assumes "open_tx db tx = Some w"
  shows "fst (Tx_Rollback S tx db) = None"
    and "journal (snd (Tx_Rollback S tx db)) = journal db @ [TxRollback tx]"
    and "rows (snd (Tx_Rollback S tx db)) = rows db"
    and "open_tx (snd (Tx_Rollback S tx db)) tx = None"
  using assms by (simp_all add: Tx_Rollback_def record_event_def)

lemma Tx_Commit_open:
  assumes "open_tx db tx = Some (d, dir)"
  shows "fst (Tx_Commit S tx db) = commit_error S"
    and "journal (snd (Tx_Commit S tx db)) = journal db @ [TxCommit tx]"
    and "rows (snd (Tx_Commit S tx db)) = (if commit_error S = None then d else rows db)"
    and "open_tx (snd (Tx_Commit S tx db)) tx = None"
  using assms by (auto simp: Tx_Commit_def record_event_def Let_def split: option.split)

text \<open>
  C4, as the code has it. \<open>TransactionWithTenant\<close> begins a transaction and sends the
  directive once inside it; the committed rows are untouched by that. It then calls the
  function with the transaction. If the function returns nil the transaction is
  committed (its rows are installed unless the server refuses the commit, whose error is
  returned); if it returns an error the transaction is rolled back, the committed rows
  are left as they were and the error is returned; if it panics, the panic leaves
  \<open>TransactionWithTenant\<close> with the store as the function left it: nothing is
  committed, and nothing is rolled back either.
\<close>

theorem transaction_with_tenant:
  assumes "begin_error S = None" and "set_error S t = None" and "checkout db = (tx, db0)"
    and "fn tx (snd (BeginTxWithTenant S t db)) = (r, db2)"
    and "open_tx db2 tx = Some (d, dir)"
  shows
  "fst (BeginTxWithTenant S t db) = Inr tx
   \<and> journal (snd (BeginTxWithTenant S t db)) =
        journal db @ [TxBegin tx, InTx tx (directive db tx) (SetTenant t)]
   \<and> rows (snd (BeginTxWithTenant S t db)) = rows db
   \<and> (r = Returns None \<longrightarrow>
        fst (TransactionWithTenant S t fn db) = Returns (commit_error S)
        \<and> journal (snd (TransactionWithTenant S t fn db)) = journal db2 @ [TxCommit tx]
        \<and> rows (snd (TransactionWithTenant S t fn db)) =
            (if commit_error S = None then d else rows db2)
        \<and> open_tx (snd (TransactionWithTenant S t fn db)) tx = None)
   \<and> (\<forall>err. r = Returns (Some err) \<longrightarrow>
        fst (TransactionWithTenant S t fn db) = Returns (Some err)
        \<and> journal (snd (TransactionWithTenant S t fn db)) = journal db2 @ [TxRollback tx]
        \<and> rows (snd (TransactionWithTenant S t fn db)) = rows db2
        \<and> open_tx (snd (TransactionWithTenant S t fn db)) tx = None)
   \<and> (\<forall>p. r = Panics p \<longrightarrow> TransactionWithTenant S t fn db = (Panics p, db2))"
proof -
  obtain db1 where b: "BeginTxWithTenant S t db = (Inr tx, db1)"
    using BeginTxWithTenant_ok(1) [OF assms(1,2,3)] by (cases "BeginTxWithTenant S t db") auto
  have f: "journal db1 = journal db @ [TxBegin tx, InTx tx (directive db tx) (SetTenant t)]"
    "rows db1 = rows db"
    using BeginTxWithTenant_ok(2,3) [OF assms(1,2,3)] b by simp_all
  have fn: "fn tx db1 = (r, db2)" using assms(4) b by simp
  have c: "r = Returns None \<longrightarrow>
        fst (TransactionWithTenant S t fn db) = Returns (commit_error S)
        \<and> journal (snd (TransactionWithTenant S t fn db)) = journal db2 @ [TxCommit tx]
        \<and> rows (snd (TransactionWithTenant S t fn db)) =
            (if commit_error S = None then d else rows db2)
        \<and> open_tx (snd (TransactionWithTenant S t fn db)) tx = None"
    using b fn Tx_Commit_open [OF assms(5), of S]
    by (cases "Tx_Commit S tx db2") (auto simp: TransactionWithTenant_def)
  have rb: "\<forall>err. r = Returns (Some err) \<longrightarrow>
        fst (TransactionWithTenant S t fn db) = Returns (Some err)
        \<and> journal (snd (TransactionWithTenant S t fn db)) = journal db2 @ [TxRollback tx]
        \<and> rows (snd (TransactionWithTenant S t fn db)) = rows db2
        \<and> open_tx (snd (TransactionWithTenant S t fn db)) tx = None"
    using b fn Tx_Rollback_open [OF assms(5), of S]
    by (simp add: TransactionWithTenant_def)
  have pn: "\<forall>p. r = Panics p \<longrightarrow> TransactionWithTenant S t fn db = (Panics p, db2)"
    using b fn by (simp add: TransactionWithTenant_def)
  show ?thesis using b f c rb pn by simp
qed

lemma begin_one_conn:
  "BeginTxWithTenant echo_server ''tenant-a'' one_conn_db =
     (Inr 0, one_conn_db
        \<lparr> open_tx := (\<lambda>i. None)(0 := Some (0, Some ''tenant-a'')),
          journal := [TxBegin 0, InTx 0 None (SetTenant ''tenant-a'')] \<rparr>)"
  by (simp add: BeginTxWithTenant_def BeginTx_def Tx_set_def checkout_def record_event_def
      echo_server_def one_conn_db_def two_conn_db_def Let_def)

theorem transaction_with_tenant_witness:
  "fst (TransactionWithTenant echo_server ''tenant-a'' inserting_fn one_conn_db) = Returns None
   \<and> journal (snd (TransactionWithTenant echo_server ''tenant-a'' inserting_fn one_conn_db)) =
       [TxBegin 0, InTx 0 None (SetTenant ''tenant-a''),
        InTx 0 (Some ''tenant-a'') (Query ''INSERT''), TxCommit 0]
   \<and> rows (snd (TransactionWithTenant echo_server ''tenant-a'' inserting_fn one_conn_db)) = 1
   \<and> fst (TransactionWithTenant echo_server ''tenant-a'' failing_fn one_conn_db) =
       Returns (Some (ErrDriver ''constraint''))
   \<and> journal (snd (TransactionWithTenant echo_server ''tenant-a'' failing_fn one_conn_db)) =
       [TxBegin 0, InTx 0 None (SetTenant ''tenant-a''),
        InTx 0 (Some ''tenant-a'') (Query ''INSERT''), TxRollback 0]
   \<and> rows (snd (TransactionWithTenant echo_server ''tenant-a'' failing_fn one_conn_db)) = 0"
proof -
  let ?db1 = "snd (BeginTxWithTenant echo_server ''tenant-a'' one_conn_db)"
  have c: "checkout one_conn_db = (0, one_conn_db)"
    by (simp add: checkout_def one_conn_db_def two_conn_db_def)
  have s: "begin_error echo_server = None" "set_error echo_server ''tenant-a'' = None"
    "commit_error echo_server = None"
    by (simp_all add: echo_server_def)
  obtain dbi where i: "inserting_fn 0 ?db1 = (Returns None, dbi)"
    by (simp add: inserting_fn_def)
  have oi: "open_tx dbi 0 = Some (1, Some ''tenant-a'')"
    and ji: "journal dbi = [TxBegin 0, InTx 0 None (SetTenant ''tenant-a''),
        InTx 0 (Some ''tenant-a'') (Query ''INSERT'')]"
    using i by (auto simp: inserting_fn_def begin_one_conn)
      (simp_all add: Tx_query_def record_event_def echo_server_def Let_def)
  obtain dbf where f: "failing_fn 0 ?db1 = (Returns (Some (ErrDriver ''constraint'')), dbf)"
    by (simp add: failing_fn_def)
  have "open_tx dbf 0 = Some (1, Some ''tenant-a'')"
    and jf: "journal dbf = [TxBegin 0, InTx 0 None (SetTenant ''tenant-a''),
        InTx 0 (Some ''tenant-a'') (Query ''INSERT'')]"
    and rf: "rows dbf = 0"
    using f by (auto simp: failing_fn_def begin_one_conn)
      (simp_all add: Tx_query_def record_event_def echo_server_def one_conn_db_def
        two_conn_db_def Let_def)
  note a = transaction_with_tenant [where fn = inserting_fn, OF s(1,2) c i oi]
  note b = transaction_with_tenant [where fn = failing_fn, OF s(1,2) c f \<open>open_tx dbf 0 = Some (1, Some ''tenant-a'')\<close>]
  show ?thesis using a b s(3) ji jf rf by simp
qed

text \<open>
  A function that inserts and then panics: the panic comes out of
  \<open>TransactionWithTenant\<close>, the journal has no rollback and the transaction is still
  open on its connection.
\<close>

theorem transaction_panic_not_rolled_back:
  "fst (TransactionWithTenant echo_server ''tenant-a'' panicking_fn one_conn_db) = Panics ''boom''
   \<and> journal (snd (TransactionWithTenant echo_server ''tenant-a'' panicking_fn one_conn_db)) =
       [TxBegin 0, InTx 0 None (SetTenant ''tenant-a''),
        InTx 0 (Some ''tenant-a'') (Query ''INSERT'')]
   \<and> open_tx (snd (TransactionWithTenant echo_server ''tenant-a'' panicking_fn one_conn_db)) 0 =
       Some (1, Some ''tenant-a'')"
  by (simp add: TransactionWithTenant_def begin_one_conn panicking_fn_def)
    (simp add: Tx_query_def record_event_def echo_server_def Let_def)

section \<open>Missing tenant\<close>

lemma no_tenant:
  assumes "\<not> snd (GetTenantID ctx)"
  shows "GetTenantIDFromContext ctx = Inl ErrTenantNotFound"
  using assms by (cases "GetTenantID ctx") (auto simp: GetTenantIDFromContext_def)

lemmas repo_defs =
  customer_Create_def customer_GetByID_def customer_Update_def customer_Delete_def
  customer_List_def customer_Search_def customer_GetByEmail_def customer_GetByTaxID_def
  customer_ListByType_def customer_ListActive_def customer_ListInactive_def customer_Count_def
  customer_CountByType_def customer_CountActive_def customer_ExistsByEmail_def
  customer_ExistsByTaxID_def count_query_def exists_query_def
  vehicle_Create_def vehicle_get_def vehicle_GetByID_def vehicle_GetByVIN_def
  vehicle_GetByLicensePlate_def vehicle_Update_def vehicle_Delete_def vehicle_List_def
  vehicle_ListByCustomer_def vehicle_ListActiveByCustomer_def vehicle_query_def
  vehicle_SearchByMakeModel_def vehicle_FindCompatibleVehicles_def
  vehicle_ListByMakeModelYear_def vehicle_Count_def vehicle_CountByCustomer_def
  vehicle_CountActive_def vehicle_ExistsByVIN_def vehicle_ExistsByLicensePlate_def
  note_Create_def note_GetByID_def note_Delete_def note_List_def note_ListByCustomer_def
  note_ListByCustomerAndType_def note_ListByStaff_def note_ListByType_def note_ListRecent_def
  note_ListByDateRange_def note_ListRecentByCustomer_def note_Count_def
  note_CountByCustomer_def note_CountByType_def note_CountByStaff_def
  note_GetNoteTypesCount_def note_GetMostActiveStaff_def

text \<open>
  C2, as the code has it. With no tenant in the context every repository operation
  returns the missing-tenant error and leaves the store untouched (no statement is
  sent, no connection is checked out); the one exception is \<open>CreateBatch\<close> with an
  empty batch, which returns nil, also without touching the store.
\<close>

theorem missing_tenant_fails:
  assumes "\<not> snd (GetTenantID ctx)"
  shows "invoke S ctx call db =
    (if call = Vehicle_CreateBatch [] then (Returns None, db)
     else (Returns (Some ErrTenantNotFound), db))"
  using no_tenant [OF assms]
  by (cases call) (simp_all add: repo_defs vehicle_CreateBatch_def errOf_def errOnly_def dropTotal_def)

section \<open>Statements on a single connection\<close>



section \<open>Reading back what the server holds\<close>








section \<open>Ordering keeps the rows\<close>


lemma set_insert_by: "set (insert_by le x xs) = insert x (set xs)"
  by (induction xs) auto


lemma set_sort_by: "set (sort_by le xs) = set xs"
  by (induction xs) (simp_all add: sort_by_def set_insert_by)


section \<open>Lists on the database server\<close>














section \<open>Missing tenant: examples\<close>

theorem missing_tenant_fails_witness:
  "\<not> snd (GetTenantID [])
   \<and> invoke (pg plain_env) [] (Customer_GetByID 1) sample_db =
       (Returns (Some ErrTenantNotFound), sample_db)
   \<and> invoke (pg plain_env) [] (Vehicle_ListActiveByCustomer 1) sample_db =
       (Returns (Some ErrTenantNotFound), sample_db)
   \<and> invoke (pg plain_env) [] (Vehicle_CreateBatch [example_vehicle None]) sample_db =
       (Returns (Some ErrTenantNotFound), sample_db)
   \<and> invoke (pg plain_env) [] Note_Count sample_db =
       (Returns (Some ErrTenantNotFound), sample_db)"
proof -
  have n: "\<not> snd (GetTenantID [])"
    by (simp add: GetTenantID_def Value_def)
  show ?thesis
    using n missing_tenant_fails [OF n, of "pg plain_env" "Customer_GetByID 1" sample_db]
      missing_tenant_fails [OF n, of "pg plain_env" "Vehicle_ListActiveByCustomer 1" sample_db]
      missing_tenant_fails [OF n, of "pg plain_env" "Vehicle_CreateBatch [example_vehicle None]"
        sample_db]
      missing_tenant_fails [OF n, of "pg plain_env" Note_Count sample_db]
    by simp
qed

text \<open>
  The empty batch: with no tenant in the context \<open>CreateBatch\<close> reports success.
\<close>

theorem create_batch_empty_without_tenant:
  "\<not> snd (GetTenantID [])
   \<and> vehicle_CreateBatch (pg plain_env) [] [] sample_db = (Returns None, sample_db)"
  by (simp add: GetTenantID_def Value_def vehicle_CreateBatch_def)

section \<open>Deleting a customer\<close>






























end
